theory Spec2Isabelle
  imports Main "HOL-Library.Word" "HOL-Library.Signed_Division"
begin

unbundle bit_operations_syntax

section \<open>The C integer types of zbc_read_zone.c\<close>

text \<open>
  The tool is built for LP64 Linux: \<^verbatim>\<open>unsigned long long\<close> and \<^verbatim>\<open>size_t\<close> are
  unsigned 64-bit, \<^verbatim>\<open>long long\<close> and \<^verbatim>\<open>ssize_t\<close> are signed 64-bit, \<^verbatim>\<open>int\<close> is
  signed 32-bit. All of them are words; a signed variable is read through \<open>sint\<close> and
  compared with \<open><s\<close> and \<open>\<le>s\<close>, an unsigned one through \<open>uint\<close>, \<open><\<close> and \<open>\<le>\<close>.
  Unsigned arithmetic wraps around. Signed overflow is undefined behaviour in C: the
  signed operations below return \<open>None\<close> where the mathematical result does not fit.
\<close>

type_synonym u64 = "64 word"
type_synonym s64 = "64 word"
type_synonym u32 = "32 word"
type_synonym c_int = "32 word"

definition in_s64 :: "int \<Rightarrow> bool" where
  "in_s64 i \<longleftrightarrow> - (2 ^ 63) \<le> i \<and> i < 2 ^ 63"

definition s64_add :: "s64 \<Rightarrow> s64 \<Rightarrow> s64 option" where
  "s64_add a b = (if in_s64 (sint a + sint b) then Some (a + b) else None)"

definition s64_sub :: "s64 \<Rightarrow> s64 \<Rightarrow> s64 option" where
  "s64_sub a b = (if in_s64 (sint a - sint b) then Some (a - b) else None)"

text \<open>\<^verbatim>\<open>x << 9\<close> on a signed operand: defined for a non-negative \<open>x\<close> whose product
  with 512 fits.\<close>

definition s64_shl9 :: "s64 \<Rightarrow> s64 option" where
  "s64_shl9 a = (if 0 \<le> sint a \<and> in_s64 (sint a * 512) then Some (push_bit 9 a) else None)"

text \<open>\<^verbatim>\<open>x / 2\<close> on a signed operand truncates towards zero and cannot overflow.\<close>

definition s64_div2 :: "s64 \<Rightarrow> s64" where
  "s64_div2 a = word_of_int (sint a sdiv 2)"

text \<open>Unsigned division traps on a zero divisor.\<close>

definition u64_div :: "u64 \<Rightarrow> u64 \<Rightarrow> u64 option" where
  "u64_div a b = (if b = 0 then None else Some (a div b))"

section \<open>Zone descriptor and device information\<close>

text \<open>
  Modelled from the spec: the header \<^verbatim>\<open>libzbc/zbc.h\<close> with \<^verbatim>\<open>struct zbc_zone\<close> and its
  accessor macros (\<^verbatim>\<open>zbc_zone_sequential_req\<close>, \<^verbatim>\<open>zbc_zone_full\<close>, \<^verbatim>\<open>zbc_zone_start\<close>,
  \<^verbatim>\<open>zbc_zone_length\<close>, \<^verbatim>\<open>zbc_zone_wp\<close>) is not part of the sources. The descriptor
  carries what the spec lists: the zone type (conventional or one of the sequential
  variants), the full flag, the start sector, the length and the write pointer, the
  last three as unsigned 64-bit sector counts.
\<close>

datatype zbc_zone_type = ZBC_ZT_CONVENTIONAL | ZBC_ZT_SEQUENTIAL_REQ | ZBC_ZT_SEQUENTIAL_PREF

record zbc_zone =
  zbz_type :: zbc_zone_type
  zbz_full :: bool
  zbz_start :: u64
  zbz_length :: u64
  zbz_write_pointer :: u64

definition zbc_zone_sequential_req :: "zbc_zone \<Rightarrow> bool" where
  "zbc_zone_sequential_req z \<longleftrightarrow> zbz_type z = ZBC_ZT_SEQUENTIAL_REQ"

definition zbc_zone_full :: "zbc_zone \<Rightarrow> bool" where
  "zbc_zone_full z \<longleftrightarrow> zbz_full z"

definition zbc_zone_start :: "zbc_zone \<Rightarrow> u64" where
  "zbc_zone_start z = zbz_start z"

definition zbc_zone_length :: "zbc_zone \<Rightarrow> u64" where
  "zbc_zone_length z = zbz_length z"

definition zbc_zone_wp :: "zbc_zone \<Rightarrow> u64" where
  "zbc_zone_wp z = zbz_write_pointer z"

section \<open>The read extent (lines 301 to 305 of main)\<close>

text \<open>The unsigned result is stored into the \<^verbatim>\<open>long long\<close> variable \<^verbatim>\<open>sector_max\<close>: the
  same 64 bits, read as signed from then on.\<close>

definition sector_max_of :: "zbc_zone \<Rightarrow> s64" where
  "sector_max_of iozone =
     (if zbc_zone_sequential_req iozone \<and> \<not> zbc_zone_full iozone
      then zbc_zone_wp iozone - zbc_zone_start iozone
      else zbc_zone_length iozone)"

section \<open>Configuration, session state and environment\<close>

text \<open>What the loop reads and never writes: the parsed options, the logical block size
  reported by the device, the target zone and the extent computed from it.
  \<^verbatim>\<open>struct zbc_device_info\<close> is declared in the absent header as well: its field
  \<^verbatim>\<open>zbd_lblock_size\<close> is taken as an unsigned 32-bit integer, the type \<^verbatim>\<open>main\<close> prints it
  with.\<close>

record config =
  iosize :: u64
  ionum :: u64
  fvio :: bool
  out_file :: "string option"
  zbd_lblock_size :: u32
  iozone :: zbc_zone
  sector_max :: s64

text \<open>The variables the loop updates, the process-wide abort flag, and the history of
  the calls made to the read primitive (the observable effect of the dispatcher).\<close>

datatype iovec = Iovec (iov_base: u64) (iov_len: u64)

text \<open>A call of \<^verbatim>\<open>zbc_pread\<close> (sector count, absolute start sector) or of \<^verbatim>\<open>zbc_preadv\<close>
  (segments, absolute start sector). \<open>iov_base\<close> is the byte offset of the segment from
  the start of the transfer buffer \<^verbatim>\<open>iobuf\<close>; \<open>iov_len\<close> is in 512-byte sectors.\<close>

datatype read_call = Pread u64 u64 | Preadv "iovec list" u64

record session =
  sector_ofst :: s64
  bcount :: u64
  iocount :: u64
  ret :: s64
  zbc_read_zone_abort :: c_int
  reads :: "read_call list"

text \<open>
  \<^verbatim>\<open>zbc_pread\<close>, \<^verbatim>\<open>zbc_preadv\<close> and \<^verbatim>\<open>write\<close> are library calls: what they return is an
  input of the model, as is the delivery of signals.
  What the program cannot decide: whether a signal has been delivered since the last
  test of the abort flag (\<open>signal_at env 0\<close>: before the first test; \<open>signal_at env (Suc k)\<close>:
  after the test of iteration \<open>k\<close>, that is while its I/O is in flight or being counted,
  and before the test of iteration \<open>k + 1\<close>), what the \<open>k\<close>-th call of the read primitive
  returns, and what the \<open>k\<close>-th \<^verbatim>\<open>write\<close> to the output returns for a given byte count.
\<close>

record environment =
  signal_at :: "nat \<Rightarrow> bool"
  zbc_read :: "nat \<Rightarrow> read_call \<Rightarrow> s64"
  sink_write :: "nat \<Rightarrow> u64 \<Rightarrow> s64"

section \<open>The signal handler (lines 55 to 58)\<close>

definition zbc_read_zone_sigcatcher :: "session \<Rightarrow> session" where
  "zbc_read_zone_sigcatcher s = s\<lparr>zbc_read_zone_abort := 1\<rparr>"

definition deliver_signals :: "environment \<Rightarrow> nat \<Rightarrow> session \<Rightarrow> session" where
  "deliver_signals env k s = (if signal_at env k then zbc_read_zone_sigcatcher s else s)"

section \<open>One iteration of the read loop (lines 309 to 359)\<close>

text \<open>Lines 312 to 314: the request size, clamped to what is left of the extent.\<close>

definition want_sectors :: "config \<Rightarrow> s64 \<Rightarrow> s64 option" where
  "want_sectors cfg ofst =
     (let sector_count = drop_bit 9 (iosize cfg) in
      case s64_add ofst sector_count of
        None \<Rightarrow> None
      | Some e \<Rightarrow>
          if sector_max cfg <s e then s64_sub (sector_max cfg) ofst else Some sector_count)"

text \<open>Lines 317 to 330: the shape of the read. The threshold \<^verbatim>\<open>2 * (zbd_lblock_size >> 9)\<close>
  is computed on 32 unsigned bits and converted to \<^verbatim>\<open>long\<close> for the signed comparison
  with \<^verbatim>\<open>sector_count\<close>.\<close>

definition dispatch :: "config \<Rightarrow> s64 \<Rightarrow> s64 \<Rightarrow> read_call" where
  "dispatch cfg sector_count ofst =
     (if fvio cfg \<and> (ucast (2 * drop_bit 9 (zbd_lblock_size cfg)) :: s64) \<le>s sector_count
      then Preadv [Iovec 0 (s64_div2 sector_count),
                   Iovec (push_bit 9 (s64_div2 sector_count))
                         (sector_count - s64_div2 sector_count)]
                  (zbc_zone_start (iozone cfg) + ofst)
      else Pread sector_count (zbc_zone_start (iozone cfg) + ofst))"

text \<open>Lines 339 to 349: forwarding the data to the output, when there is one.\<close>

datatype sink_result = Sink_undefined | Sink_failed | Sink_ok

definition write_out :: "config \<Rightarrow> environment \<Rightarrow> nat \<Rightarrow> s64 \<Rightarrow> sink_result" where
  "write_out cfg env k sector_count =
     (case out_file cfg of
        None \<Rightarrow> Sink_ok
      | Some f \<Rightarrow>
          (case s64_shl9 sector_count of
             None \<Rightarrow> Sink_undefined
           | Some nbytes \<Rightarrow> if sink_write env k nbytes <s 0 then Sink_failed else Sink_ok))"

text \<open>Lines 351 to 354: the counters after a completed I/O of \<open>sector_count\<close> sectors.\<close>

definition account :: "session \<Rightarrow> s64 \<Rightarrow> session option" where
  "account s sector_count =
     (case s64_add (sector_ofst s) sector_count of
        None \<Rightarrow> None
      | Some ofst' \<Rightarrow>
          (case s64_shl9 sector_count of
             None \<Rightarrow> None
           | Some nbytes \<Rightarrow>
               Some (s\<lparr>sector_ofst := ofst', bcount := bcount s + nbytes,
                       iocount := iocount s + 1, ret := 0\<rparr>)))"

text \<open>How the loop is left: by the first or the second conjunct of the \<^verbatim>\<open>while\<close>
  condition, or by one of the three \<^verbatim>\<open>break\<close> statements.\<close>

datatype loop_exit = Exit_abort | Exit_extent | Exit_read_failed | Exit_write_failed | Exit_budget

datatype outcome = Undefined_behaviour | Finished loop_exit session

datatype step = Continue session | Stop outcome

definition loop_body :: "config \<Rightarrow> environment \<Rightarrow> nat \<Rightarrow> session \<Rightarrow> step" where
  "loop_body cfg env k s0 =
     (let s = deliver_signals env k s0 in
      if zbc_read_zone_abort s \<noteq> 0 then Stop (Finished Exit_abort s)
      else if \<not> sector_ofst s <s sector_max cfg then Stop (Finished Exit_extent s)
      else
        (case want_sectors cfg (sector_ofst s) of
           None \<Rightarrow> Stop Undefined_behaviour
         | Some sector_count \<Rightarrow>
             let rq = dispatch cfg sector_count (sector_ofst s);
                 r = zbc_read env k rq;
                 s1 = s\<lparr>reads := reads s @ [rq]\<rparr>
             in
               if r \<le>s 0 then Stop (Finished Exit_read_failed (s1\<lparr>ret := 1\<rparr>))
               else
                 (case write_out cfg env k r of
                    Sink_undefined \<Rightarrow> Stop Undefined_behaviour
                  | Sink_failed \<Rightarrow> Stop (Finished Exit_write_failed (s1\<lparr>ret := 1\<rparr>))
                  | Sink_ok \<Rightarrow>
                      (case account s1 r of
                         None \<Rightarrow> Stop Undefined_behaviour
                       | Some s2 \<Rightarrow>
                           if 0 < ionum cfg \<and> ionum cfg \<le> iocount s2
                           then Stop (Finished Exit_budget s2)
                           else Continue s2))))"

section \<open>Signed arithmetic facts\<close>

lemma s64_add_sint: "s64_add a b = Some c \<Longrightarrow> c = a + b \<and> sint c = sint a + sint b"
  by (auto simp: s64_add_def in_s64_def sint_word_ariths signed_take_bit_int_eq_self
      split: if_splits)

lemma s64_sub_sint: "s64_sub a b = Some c \<Longrightarrow> c = a - b \<and> sint c = sint a - sint b"
  by (auto simp: s64_sub_def in_s64_def sint_word_ariths signed_take_bit_int_eq_self
      split: if_splits)

lemma account_ofst:
  "account s r = Some s2 \<Longrightarrow> sint (sector_ofst s2) = sint (sector_ofst s) + sint r"
  by (auto simp: account_def dest: s64_add_sint split: option.splits)

lemma loop_body_Continue_advances:
  assumes "loop_body cfg env k s = Continue s2"
  shows "sint (sector_ofst s) < sint (sector_ofst s2) \<and> sint (sector_ofst s) < sint (sector_max cfg)"
  using assms
  by (auto simp: loop_body_def Let_def deliver_signals_def zbc_read_zone_sigcatcher_def
      word_sless_alt word_sle_eq
      dest!: account_ofst split: if_splits option.splits sink_result.splits)

section \<open>The read loop\<close>

function read_loop :: "config \<Rightarrow> environment \<Rightarrow> nat \<Rightarrow> session \<Rightarrow> outcome" where
  "read_loop cfg env k s =
     (case loop_body cfg env k s of
        Stop out \<Rightarrow> out
      | Continue s2 \<Rightarrow> read_loop cfg env (Suc k) s2)"
  by pat_completeness auto
termination
proof (relation "measure (\<lambda>(cfg, env, k, s). nat (sint (sector_max cfg) - sint (sector_ofst s)))")
  show "wf (measure (\<lambda>(cfg, env, k, s). nat (sint (sector_max cfg) - sint (sector_ofst s))))"
    by simp
next
  fix cfg :: config and env :: environment and k :: nat and s s2 :: session
  assume "loop_body cfg env k s = Continue s2"
  from loop_body_Continue_advances [OF this]
  show "((cfg, env, Suc k, s2), (cfg, env, k, s))
          \<in> measure (\<lambda>(cfg, env, k, s). nat (sint (sector_max cfg) - sint (sector_ofst s)))"
    by simp
qed

declare read_loop.simps [simp del]

text \<open>The session at the top of iteration \<open>k\<close> of a run that starts in \<open>s0\<close>, when the
  iterations before it all went on to the next one.\<close>

fun state_at :: "config \<Rightarrow> environment \<Rightarrow> session \<Rightarrow> nat \<Rightarrow> session option" where
  "state_at cfg env s0 0 = Some s0"
| "state_at cfg env s0 (Suc k) =
     (case state_at cfg env s0 k of
        None \<Rightarrow> None
      | Some s \<Rightarrow> (case loop_body cfg env k s of Continue s2 \<Rightarrow> Some s2 | Stop out \<Rightarrow> None))"

text \<open>The session \<open>j\<close> iterations after the top of iteration \<open>k\<close> in session \<open>s\<close>, when
  these \<open>j\<close> iterations all went on to the next one.\<close>

fun state_from :: "config \<Rightarrow> environment \<Rightarrow> nat \<Rightarrow> session \<Rightarrow> nat \<Rightarrow> session option" where
  "state_from cfg env k s 0 = Some s"
| "state_from cfg env k s (Suc j) =
     (case loop_body cfg env k s of
        Continue s2 \<Rightarrow> state_from cfg env (Suc k) s2 j
      | Stop out \<Rightarrow> None)"

text \<open>The assumption on the device that the session invariant needs: the call of the
  read primitive that iteration \<open>k\<close> makes in session \<open>s\<close>, if it makes one (the loop
  test passes and the request size is defined), returns at most the sector count
  requested; and the same for every call of the run that goes on from there. A zero
  or negative result, that is a failed read, is within the assumption.\<close>

definition call_bounded :: "config \<Rightarrow> environment \<Rightarrow> nat \<Rightarrow> session \<Rightarrow> bool" where
  "call_bounded cfg env k s =
     (if zbc_read_zone_abort (deliver_signals env k s) = 0 \<and> sector_ofst s <s sector_max cfg
      then (case want_sectors cfg (sector_ofst s) of
              None \<Rightarrow> True
            | Some w \<Rightarrow> sint (zbc_read env k (dispatch cfg w (sector_ofst s))) \<le> sint w)
      else True)"

definition calls_bounded :: "config \<Rightarrow> environment \<Rightarrow> nat \<Rightarrow> session \<Rightarrow> bool" where
  "calls_bounded cfg env k s \<longleftrightarrow>
     (\<forall>j sj. state_from cfg env k s j = Some sj \<longrightarrow> call_bounded cfg env (k + j) sj)"

section \<open>Throughput report (lines 361 to 378)\<close>

text \<open>The numbers printed after the loop: the totals alone, or the totals with the
  elapsed seconds and milliseconds, the I/O rate, and the byte rate as whole megabytes
  and thousandths. A result \<open>None\<close> stands for a division by zero.\<close>

datatype report =
  Report_totals u64 u64
| Report_rates u64 u64 u64 u64 u64 u64 u64

definition throughput_report :: "u64 \<Rightarrow> u64 \<Rightarrow> u64 \<Rightarrow> report option" where
  "throughput_report elapsed n_bytes n_ios =
     (if elapsed \<noteq> 0 then
        (case u64_div (n_ios * 1000000) elapsed of
           None \<Rightarrow> None
         | Some iops \<Rightarrow>
             (case u64_div (n_bytes * 1000000) elapsed of
                None \<Rightarrow> None
              | Some brate \<Rightarrow>
                  Some (Report_rates n_bytes n_ios
                          (elapsed div 1000000) ((elapsed mod 1000000) div 1000)
                          iops
                          (brate div 1000000) ((brate mod 1000000) div 1000))))
      else Some (Report_totals n_bytes n_ios))"

section \<open>Option parsing: the values of -nio and -ofst (lines 124 to 128, 144 to 148)\<close>

text \<open>\<^verbatim>\<open>atoi\<close> returns an \<^verbatim>\<open>int\<close>; the assignment to the \<^verbatim>\<open>unsigned long long\<close> variable
  \<^verbatim>\<open>ionum\<close> converts it by sign extension. The test \<^verbatim>\<open>ionum <= 0\<close> is an unsigned
  comparison. The argument is the value \<^verbatim>\<open>atoi\<close> returned.\<close>

definition parse_nio :: "c_int \<Rightarrow> string + u64" where
  "parse_nio atoi_result =
     (let ionum = (scast atoi_result :: u64) in
      if ionum \<le> 0 then Inl ''Invalid number of I/Os'' else Inr ionum)"

definition parse_ofst :: "s64 \<Rightarrow> string + s64" where
  "parse_ofst atoll_result =
     (if atoll_result <s 0 then Inl ''Invalid sector offset'' else Inr atoll_result)"

section \<open>Output file and exit (lines 259 to 288 and 380 to 397)\<close>

text \<open>What the rest of \<^verbatim>\<open>main\<close> gets from the system: the descriptor of the standard
  output, the result of \<^verbatim>\<open>open\<close> on the output file, and the clock before and after
  the loop.\<close>

record system =
  fileno_stdout :: c_int
  open_result :: c_int
  usec_start :: u64
  usec_end :: u64

text \<open>Lines 260 to 288: the descriptor \<^verbatim>\<open>fd\<close>, and whether \<^verbatim>\<open>main\<close> goes on (a failed
  \<^verbatim>\<open>open\<close> jumps to \<^verbatim>\<open>out\<close> with \<^verbatim>\<open>ret = 1\<close>).\<close>

definition open_output :: "string option \<Rightarrow> system \<Rightarrow> c_int \<times> bool" where
  "open_output f sys =
     (case f of
        None \<Rightarrow> (- 1, True)
      | Some name \<Rightarrow>
          if name = ''-'' then (fileno_stdout sys, True)
          else (open_result sys, \<not> open_result sys <s 0))"

datatype fs_action = Close c_int | Unlink string

text \<open>Lines 382 to 387.\<close>

definition cleanup :: "string option \<Rightarrow> c_int \<Rightarrow> system \<Rightarrow> s64 \<Rightarrow> fs_action list" where
  "cleanup f fd sys r =
     (case f of
        None \<Rightarrow> []
      | Some name \<Rightarrow>
          if 0 <s fd
          then (if fd \<noteq> fileno_stdout sys then [Close fd] else [])
             @ (if r \<noteq> 0 then [Unlink name] else [])
          else [])"

record exit_state =
  exit_status :: c_int
  fs_actions :: "fs_action list"
  printed :: "report option"

definition initial_session :: "s64 \<Rightarrow> session" where
  "initial_session ofst =
     \<lparr>sector_ofst = ofst, bcount = 0, iocount = 0, ret = 0,
      zbc_read_zone_abort = 0, reads = []\<rparr>"

text \<open>\<^verbatim>\<open>main\<close> from line 259 to its \<^verbatim>\<open>return\<close>. \<open>None\<close>: the run has no defined
  result (signed overflow or a division by zero).\<close>

definition main_io :: "config \<Rightarrow> system \<Rightarrow> environment \<Rightarrow> s64 \<Rightarrow> exit_state option" where
  "main_io cfg sys env ofst =
     (case open_output (out_file cfg) sys of
        (fd, False) \<Rightarrow>
          Some \<lparr>exit_status = 1, fs_actions = cleanup (out_file cfg) fd sys 1, printed = None\<rparr>
      | (fd, True) \<Rightarrow>
          (case read_loop cfg env 0 (initial_session ofst) of
             Undefined_behaviour \<Rightarrow> None
           | Finished e s \<Rightarrow>
               (case throughput_report (usec_end sys - usec_start sys) (bcount s) (iocount s) of
                  None \<Rightarrow> None
                | Some rep \<Rightarrow>
                    Some \<lparr>exit_status = ucast (ret s),
                          fs_actions = cleanup (out_file cfg) fd sys (ret s),
                          printed = Some rep\<rparr>)))"

section \<open>Sample inputs\<close>

text \<open>Zones, configurations and devices on which the theorems below are evaluated.\<close>

definition zone_half_written :: zbc_zone where
  "zone_half_written =
     \<lparr>zbz_type = ZBC_ZT_SEQUENTIAL_REQ, zbz_full = False, zbz_start = 1000,
      zbz_length = 1000, zbz_write_pointer = 1500\<rparr>"

definition zone_conventional :: zbc_zone where
  "zone_conventional =
     \<lparr>zbz_type = ZBC_ZT_CONVENTIONAL, zbz_full = False, zbz_start = 0,
      zbz_length = 100, zbz_write_pointer = 0\<rparr>"

definition zone_empty :: zbc_zone where
  "zone_empty =
     \<lparr>zbz_type = ZBC_ZT_SEQUENTIAL_REQ, zbz_full = False, zbz_start = 1000,
      zbz_length = 1000, zbz_write_pointer = 1000\<rparr>"

definition config_for :: "zbc_zone \<Rightarrow> u64 \<Rightarrow> config" where
  "config_for z sz =
     \<lparr>iosize = sz, ionum = 0, fvio = False, out_file = None, zbd_lblock_size = 512,
      iozone = z, sector_max = sector_max_of z\<rparr>"

definition device_ok :: environment where
  "device_ok =
     \<lparr>signal_at = (\<lambda>k. False),
      zbc_read = (\<lambda>k rq. case rq of Pread n sector \<Rightarrow> n | Preadv v sector \<Rightarrow> sum_list (map iov_len v)),
      sink_write = (\<lambda>k n. n)\<rparr>"

definition config_vectored :: config where
  "config_vectored = (config_for zone_half_written 4096)\<lparr>fvio := True\<rparr>"

text \<open>A device that transfers at most three sectors per call.\<close>

definition device_short :: environment where
  "device_short =
     \<lparr>signal_at = (\<lambda>k. False),
      zbc_read = (\<lambda>k rq. case rq of Pread n sector \<Rightarrow> (if 3 \<le>s n then 3 else n)
                                  | Preadv v sector \<Rightarrow> 0),
      sink_write = (\<lambda>k n. n)\<rparr>"

definition config_budget :: config where
  "config_budget = (config_for zone_half_written 4096)\<lparr>ionum := 2\<rparr>"

text \<open>A signal delivered while the first I/O is in flight, and a device whose second
  call fails with the error code 5.\<close>

definition device_interrupted :: environment where
  "device_interrupted = device_ok\<lparr>signal_at := (\<lambda>k. k = 1)\<rparr>"

definition device_failing :: environment where
  "device_failing = device_ok\<lparr>zbc_read := (\<lambda>k rq. if k = 0 then 8 else - 5)\<rparr>"

text \<open>A device whose every call fails with the error code 5, and a system in which the
  standard output is descriptor 1, \<^verbatim>\<open>open\<close> returns descriptor 3, and the loop takes
  250 microseconds.\<close>

definition device_dead :: environment where
  "device_dead = device_ok\<lparr>zbc_read := (\<lambda>k rq. - 5)\<rparr>"

definition system_usual :: system where
  "system_usual = \<lparr>fileno_stdout = 1, open_result = 3, usec_start = 1000, usec_end = 1250\<rparr>"

text \<open>A device that reports logical blocks of 4096 bytes.\<close>

definition config_block_4k :: config where
  "config_block_4k = (config_for zone_half_written 4096)\<lparr>zbd_lblock_size := 4096\<rparr>"

section \<open>Facts about the word arithmetic\<close>

lemma sint_le_uint: "sint w \<le> uint w" for w :: "'a::len word"
proof -
  have "- (2 ^ (LENGTH('a) - Suc 0)) \<le> (0::int)" by simp
  also have "0 \<le> uint w" by simp
  finally show ?thesis
    by (simp add: sint_uint signed_take_bit_int_less_eq_self_iff)
qed

lemma sint_eq_uint_64: "uint w < 2 ^ 63 \<Longrightarrow> sint w = uint w" for w :: u64
proof -
  assume b: "uint w < 2 ^ 63"
  have "- (2 ^ 63) \<le> (0::int)" by simp
  also have "0 \<le> uint w" by simp
  finally have "signed_take_bit 63 (uint w) = uint w"
    using b by (rule signed_take_bit_int_eq_self)
  then show ?thesis by (simp add: sint_uint)
qed

lemma uint_eq_sint_64: "0 \<le> sint w \<Longrightarrow> uint w = sint w" for w :: u64
proof -
  assume "0 \<le> sint w"
  have "uint w = take_bit 64 (sint w)" by (simp add: uint_sint)
  also have "\<dots> = sint w"
    using \<open>0 \<le> sint w\<close> sint_lt [of w] by (simp add: take_bit_int_eq_self)
  finally show ?thesis .
qed

lemma uint_drop_bit_9: "uint (drop_bit 9 w) = uint w div 512" for w :: u64
  by (simp add: drop_bit_eq_div uint_div)

lemma uint_drop_bit_9_32: "uint (drop_bit 9 w) = uint w div 512" for w :: u32
  by (simp add: drop_bit_eq_div uint_div)

lemma sint_drop_bit_9: "sint (drop_bit 9 w) = uint w div 512" for w :: u64
proof -
  have "uint w div 512 < 2 ^ 63" using uint_lt2p [of w] by simp
  then show ?thesis by (simp add: sint_eq_uint_64 uint_drop_bit_9)
qed

lemma sint_threshold:
  "sint (ucast (2 * drop_bit 9 lb) :: s64) = 2 * (uint lb div 512)" for lb :: u32
proof -
  have b: "uint lb div 512 < 2 ^ 23" using uint_lt2p [of lb] by simp
  have "uint (2 * drop_bit 9 lb) = (2 * (uint lb div 512)) mod 2 ^ 32"
    by (simp add: uint_word_ariths uint_drop_bit_9_32)
  also have "\<dots> = 2 * (uint lb div 512)"
  proof (rule mod_pos_pos_trivial)
    show "0 \<le> 2 * (uint lb div 512)" by (simp add: pos_imp_zdiv_nonneg_iff)
    show "2 * (uint lb div 512) < 2 ^ 32" using b by simp
  qed
  finally have u: "uint (2 * drop_bit 9 lb) = 2 * (uint lb div 512)" .
  have "uint (ucast (2 * drop_bit 9 lb) :: s64) = uint (2 * drop_bit 9 lb)"
    by (simp add: uint_up_ucast is_up)
  with u b show ?thesis by (simp add: sint_eq_uint_64)
qed

lemma uint_s64_div2: "0 \<le> sint w \<Longrightarrow> uint (s64_div2 w) = sint w div 2"
proof -
  assume nn: "0 \<le> sint w"
  then have "sint w sdiv 2 = sint w div 2"
    by (simp add: signed_divide_int_def sgn_if)
  moreover have "sint w div 2 < 2 ^ 64" using sint_lt [of w] by simp
  moreover have "0 \<le> sint w div 2" using nn by simp
  ultimately show ?thesis
    by (simp add: s64_div2_def uint_word_of_int)
qed

lemma want_sectors_min:
  assumes "want_sectors cfg ofst = Some w" and "ofst <s sector_max cfg"
  shows "sint w = min (uint (iosize cfg) div 512) (sint (sector_max cfg) - sint ofst)"
  using assms
  by (auto simp: want_sectors_def Let_def word_sless_alt sint_drop_bit_9
      dest!: s64_add_sint s64_sub_sint split: option.splits if_splits)

lemma read_loop_Stop: "loop_body cfg env k s = Stop out \<Longrightarrow> read_loop cfg env k s = out"
  by (simp add: read_loop.simps)

lemma read_loop_Continue:
  "loop_body cfg env k s = Continue s2 \<Longrightarrow> read_loop cfg env k s = read_loop cfg env (Suc k) s2"
  by (simp add: read_loop.simps)

lemma loop_body_no_extent:
  assumes "\<not> sector_ofst s <s sector_max cfg"
  shows "\<exists>e. loop_body cfg env k s = Stop (Finished e (deliver_signals env k s))"
  using assms
  by (auto simp: loop_body_def Let_def deliver_signals_def zbc_read_zone_sigcatcher_def)

lemma sector_max_of_within:
  assumes "uint (zbc_zone_start z) \<le> uint (zbc_zone_wp z)"
    and "uint (zbc_zone_wp z) \<le> uint (zbc_zone_start z) + uint (zbc_zone_length z)"
  shows "sint (sector_max_of z) \<le> uint (zbc_zone_length z)"
proof (cases "zbc_zone_sequential_req z \<and> \<not> zbc_zone_full z")
  case True
  have "uint (zbc_zone_wp z - zbc_zone_start z) = uint (zbc_zone_wp z) - uint (zbc_zone_start z)"
    using assms(1) by (simp add: uint_sub_lem)
  with assms(2) have "uint (zbc_zone_wp z - zbc_zone_start z) \<le> uint (zbc_zone_length z)"
    by simp
  with sint_le_uint [of "zbc_zone_wp z - zbc_zone_start z"] True show ?thesis
    by (simp add: sector_max_of_def)
next
  case False
  then have "sector_max_of z = zbc_zone_length z"
    by (auto simp: sector_max_of_def)
  then show ?thesis
    by (simp add: sint_le_uint)
qed

lemma uint_sector_max_of:
  assumes "zbc_zone_sequential_req z" "\<not> zbc_zone_full z"
    and "uint (zbc_zone_start z) \<le> uint (zbc_zone_wp z)"
  shows "uint (sector_max_of z) = uint (zbc_zone_wp z) - uint (zbc_zone_start z)"
  using assms by (simp add: sector_max_of_def uint_sub_lem)

lemma parse_nio_negative:
  assumes "sint n < 0"
  shows "parse_nio n = Inr (scast n) \<and> uint (scast n :: u64) = 2 ^ 64 + sint n"
proof -
  have r: "- (2 ^ 31) \<le> sint n" using sint_ge [of n] by simp
  have "uint (scast n :: u64) = take_bit 64 (sint (scast n :: u64))"
    by (simp add: uint_sint)
  also have "\<dots> = take_bit 64 (sint n)"
    by (simp add: sint_up_scast is_up)
  also have "\<dots> = sint n mod 2 ^ 64" by (simp add: take_bit_eq_mod)
  also have "\<dots> = (2 ^ 64 + sint n) mod 2 ^ 64" by simp
  also have "\<dots> = 2 ^ 64 + sint n"
  proof (rule mod_pos_pos_trivial)
    show "0 \<le> 2 ^ 64 + sint n" using r by simp
    show "2 ^ 64 + sint n < 2 ^ 64" using assms by simp
  qed
  finally have u: "uint (scast n :: u64) = 2 ^ 64 + sint n" .
  then have "(scast n :: u64) \<noteq> 0" using r by (auto simp flip: uint_0_iff)
  with u show ?thesis by (simp add: parse_nio_def Let_def)
qed

section \<open>Facts about one iteration and about the loop\<close>

lemma deliver_signals_fields [simp]:
  "sector_ofst (deliver_signals env k s) = sector_ofst s"
  "bcount (deliver_signals env k s) = bcount s"
  "iocount (deliver_signals env k s) = iocount s"
  "ret (deliver_signals env k s) = ret s"
  "reads (deliver_signals env k s) = reads s"
  by (simp_all add: deliver_signals_def zbc_read_zone_sigcatcher_def)

lemma deliver_signals_abort:
  "zbc_read_zone_abort (deliver_signals env k s) = (if signal_at env k then 1 else zbc_read_zone_abort s)"
  by (simp add: deliver_signals_def zbc_read_zone_sigcatcher_def)

lemma deliver_signals_idle:
  "zbc_read_zone_abort (deliver_signals env k s) = 0 \<Longrightarrow> deliver_signals env k s = s"
  by (auto simp: deliver_signals_def zbc_read_zone_sigcatcher_def split: if_splits)

lemma account_eq:
  assumes "account s r = Some s2"
  shows "s2 = s\<lparr>sector_ofst := sector_ofst s + r, bcount := bcount s + push_bit 9 r,
                 iocount := iocount s + 1, ret := 0\<rparr>"
  using assms
  by (auto simp: account_def s64_shl9_def dest!: s64_add_sint split: option.splits if_splits)

lemma loop_body_cases:
  obtains
    (aborted) "zbc_read_zone_abort (deliver_signals env k s) \<noteq> 0"
      "loop_body cfg env k s = Stop (Finished Exit_abort (deliver_signals env k s))"
  | (extent) "deliver_signals env k s = s" "\<not> sector_ofst s <s sector_max cfg"
      "loop_body cfg env k s = Stop (Finished Exit_extent s)"
  | (undefined) "loop_body cfg env k s = Stop Undefined_behaviour"
  | (read_failed) w where "deliver_signals env k s = s" "sector_ofst s <s sector_max cfg"
      "want_sectors cfg (sector_ofst s) = Some w"
      "zbc_read env k (dispatch cfg w (sector_ofst s)) \<le>s 0"
      "loop_body cfg env k s = Stop (Finished Exit_read_failed
         (s\<lparr>reads := reads s @ [dispatch cfg w (sector_ofst s)], ret := 1\<rparr>))"
  | (write_failed) w where "deliver_signals env k s = s" "sector_ofst s <s sector_max cfg"
      "want_sectors cfg (sector_ofst s) = Some w"
      "\<not> zbc_read env k (dispatch cfg w (sector_ofst s)) \<le>s 0"
      "loop_body cfg env k s = Stop (Finished Exit_write_failed
         (s\<lparr>reads := reads s @ [dispatch cfg w (sector_ofst s)], ret := 1\<rparr>))"
  | (completed) w s2 where "deliver_signals env k s = s" "sector_ofst s <s sector_max cfg"
      "want_sectors cfg (sector_ofst s) = Some w"
      "\<not> zbc_read env k (dispatch cfg w (sector_ofst s)) \<le>s 0"
      "account (s\<lparr>reads := reads s @ [dispatch cfg w (sector_ofst s)]\<rparr>)
         (zbc_read env k (dispatch cfg w (sector_ofst s))) = Some s2"
      "loop_body cfg env k s =
         (if 0 < ionum cfg \<and> ionum cfg \<le> iocount s2
          then Stop (Finished Exit_budget s2) else Continue s2)"
proof (cases "zbc_read_zone_abort (deliver_signals env k s) \<noteq> 0")
  case True
  then show ?thesis by (intro aborted) (simp_all add: loop_body_def Let_def)
next
  case False
  then have idle: "deliver_signals env k s = s" by (simp add: deliver_signals_idle)
  show ?thesis
  proof (cases "sector_ofst s <s sector_max cfg")
    case False
    with idle \<open>\<not> zbc_read_zone_abort (deliver_signals env k s) \<noteq> 0\<close> show ?thesis
      by (intro extent) (simp_all add: loop_body_def Let_def)
  next
    case guard: True
    show ?thesis
    proof (cases "want_sectors cfg (sector_ofst s)")
      case None
      with idle guard \<open>\<not> zbc_read_zone_abort (deliver_signals env k s) \<noteq> 0\<close> show ?thesis
        by (intro undefined) (simp add: loop_body_def Let_def)
    next
      case (Some w)
      let ?rq = "dispatch cfg w (sector_ofst s)"
      let ?r = "zbc_read env k ?rq"
      let ?s1 = "s\<lparr>reads := reads s @ [?rq]\<rparr>"
      note base = idle guard Some \<open>\<not> zbc_read_zone_abort (deliver_signals env k s) \<noteq> 0\<close>
      show ?thesis
      proof (cases "?r \<le>s 0")
        case True
        with base show ?thesis
          by (intro read_failed [of w]) (simp_all add: loop_body_def Let_def)
      next
        case ok: False
        show ?thesis
        proof (cases "write_out cfg env k ?r")
          case Sink_undefined
          with base ok show ?thesis
            by (intro undefined) (simp add: loop_body_def Let_def)
        next
          case Sink_failed
          with base ok show ?thesis
            by (intro write_failed [of w]) (simp_all add: loop_body_def Let_def)
        next
          case Sink_ok
          show ?thesis
          proof (cases "account ?s1 ?r")
            case None
            with base ok Sink_ok show ?thesis
              by (intro undefined) (simp add: loop_body_def Let_def)
          next
            case (Some s2)
            with base ok Sink_ok show ?thesis
              by (intro completed [of w s2]) (simp_all add: loop_body_def Let_def)
          qed
        qed
      qed
    qed
  qed
qed

lemma account_sint:
  assumes "account s r = Some s2"
  shows "sint (sector_ofst s2) = sint (sector_ofst s) + sint r"
    and "iocount s2 = iocount s + 1"
    and "bcount s2 = bcount s + 512 * r"
    and "reads s2 = reads s"
    and "zbc_read_zone_abort s2 = zbc_read_zone_abort s"
    and "ret s2 = 0"
  using account_ofst [OF assms] account_eq [OF assms]
  by (simp_all add: push_bit_eq_mult)

lemma iocount_step:
  fixes i m :: u64
  assumes "0 < m \<longrightarrow> i < m"
  shows "0 < m \<longrightarrow> i + 1 \<le> m"
  using assms by (auto simp: inc_le)

lemma want_sectors_bounds:
  assumes "want_sectors cfg ofst = Some w" and "ofst <s sector_max cfg"
  shows "0 \<le> sint w" and "512 * sint w \<le> uint (iosize cfg)" and "sint w < 2 ^ 55"
proof -
  note m = want_sectors_min [OF assms]
  have pos: "0 < sint (sector_max cfg) - sint ofst"
    using assms(2) by (simp add: word_sless_alt)
  have nn: "0 \<le> uint (iosize cfg) div 512"
    by (simp add: pos_imp_zdiv_nonneg_iff)
  from m pos nn show "0 \<le> sint w" by simp
  have "sint w \<le> uint (iosize cfg) div 512" using m by simp
  then have "512 * sint w \<le> 512 * (uint (iosize cfg) div 512)" by simp
  also have "\<dots> \<le> uint (iosize cfg)" by simp
  finally show "512 * sint w \<le> uint (iosize cfg)" .
  then show "sint w < 2 ^ 55" using uint_lt2p [of "iosize cfg"] by simp
qed

lemma loop_body_completed_flag:
  assumes "loop_body cfg env k s = Continue s2 \<or> loop_body cfg env k s = Stop (Finished Exit_budget s2)"
  shows "zbc_read_zone_abort (deliver_signals env k s) = 0"
  using assms by (auto simp: loop_body_def Let_def split: if_splits)

lemma call_boundedD:
  assumes "call_bounded cfg env k s"
    and "zbc_read_zone_abort (deliver_signals env k s) = 0"
    and "sector_ofst s <s sector_max cfg"
    and "want_sectors cfg (sector_ofst s) = Some w"
  shows "sint (zbc_read env k (dispatch cfg w (sector_ofst s))) \<le> sint w"
  using assms by (simp add: call_bounded_def)

lemma calls_bounded_here: "calls_bounded cfg env k s \<Longrightarrow> call_bounded cfg env k s"
  by (auto simp: calls_bounded_def dest: spec [of _ 0])

lemma calls_bounded_step:
  assumes "calls_bounded cfg env k s" and "loop_body cfg env k s = Continue s2"
  shows "calls_bounded cfg env (Suc k) s2"
  unfolding calls_bounded_def
proof (intro allI impI)
  fix j sj
  assume "state_from cfg env (Suc k) s2 j = Some sj"
  with assms(2) have "state_from cfg env k s (Suc j) = Some sj" by simp
  with assms(1) have "call_bounded cfg env (k + Suc j) sj"
    unfolding calls_bounded_def by blast
  then show "call_bounded cfg env (Suc k + j) sj" by simp
qed

text \<open>A device that never returns more than a non-negative request is within the
  assumption, whatever the run.\<close>

lemma calls_bounded_device:
  assumes "\<forall>j w ofst. 0 \<le> sint w \<longrightarrow> sint (zbc_read env j (dispatch cfg w ofst)) \<le> sint w"
  shows "calls_bounded cfg env k s"
  unfolding calls_bounded_def call_bounded_def
  using assms want_sectors_bounds(1) by (auto split: option.splits)

text \<open>One iteration preserves the session invariant.\<close>

lemma loop_body_invariant:
  assumes step: "loop_body cfg env k s = Continue s2 \<or> loop_body cfg env k s = Stop (Finished e s2)"
    and bound: "call_bounded cfg env k s"
    and inv: "sint (sector_ofst s) \<le> sint (sector_max cfg)"
             "0 < ionum cfg \<longrightarrow> iocount s < ionum cfg"
  shows "sint (sector_ofst s) \<le> sint (sector_ofst s2)"
    and "sint (sector_ofst s2) \<le> sint (sector_max cfg)"
    and "0 < ionum cfg \<longrightarrow> iocount s2 \<le> ionum cfg"
    and "loop_body cfg env k s = Continue s2 \<Longrightarrow> 0 < ionum cfg \<longrightarrow> iocount s2 < ionum cfg"
proof -
  have "sint (sector_ofst s) \<le> sint (sector_ofst s2) \<and>
        sint (sector_ofst s2) \<le> sint (sector_max cfg) \<and>
        (0 < ionum cfg \<longrightarrow> iocount s2 \<le> ionum cfg) \<and>
        (loop_body cfg env k s = Continue s2 \<longrightarrow> 0 < ionum cfg \<longrightarrow> iocount s2 < ionum cfg)"
  proof (cases cfg env k s rule: loop_body_cases)
    case aborted
    with step inv show ?thesis by auto
  next
    case extent
    with step inv show ?thesis by auto
  next
    case undefined
    with step show ?thesis by auto
  next
    case (read_failed w)
    with step inv show ?thesis by auto
  next
    case (write_failed w)
    with step inv show ?thesis by auto
  next
    case (completed w s3)
    let ?r = "zbc_read env k (dispatch cfg w (sector_ofst s))"
    from completed(6) step have s3: "s3 = s2" by (auto split: if_splits)
    note acc = account_sint [OF completed(5)]
    have pos: "0 < sint ?r" using completed(4) by (simp add: word_sle_eq)
    have "zbc_read_zone_abort (deliver_signals env k s) = 0"
      using completed(6) by (intro loop_body_completed_flag [of cfg env k s s3]) (simp split: if_splits)
    from call_boundedD [OF bound this completed(2) completed(3)]
    have "sint ?r \<le> sint w" .
    also have "sint w \<le> sint (sector_max cfg) - sint (sector_ofst s)"
      using want_sectors_min [OF completed(3) completed(2)] by simp
    finally have le: "sint ?r \<le> sint (sector_max cfg) - sint (sector_ofst s)" .
    have io: "0 < ionum cfg \<longrightarrow> iocount s3 \<le> ionum cfg"
      using iocount_step [OF inv(2)] acc(2) by simp
    have cont: "loop_body cfg env k s = Continue s2 \<longrightarrow> 0 < ionum cfg \<longrightarrow> iocount s2 < ionum cfg"
      using completed(6) s3 by (auto split: if_splits)
    from pos le acc(1) io cont s3 show ?thesis by simp
  qed
  then show "sint (sector_ofst s) \<le> sint (sector_ofst s2)"
    and "sint (sector_ofst s2) \<le> sint (sector_max cfg)"
    and "0 < ionum cfg \<longrightarrow> iocount s2 \<le> ionum cfg"
    and "loop_body cfg env k s = Continue s2 \<Longrightarrow> 0 < ionum cfg \<longrightarrow> iocount s2 < ionum cfg"
    by blast+
qed

lemma read_loop_invariant:
  "read_loop cfg env k s = Finished e sf \<Longrightarrow>
   calls_bounded cfg env k s \<Longrightarrow>
   sint (sector_ofst s) \<le> sint (sector_max cfg) \<Longrightarrow>
   (0 < ionum cfg \<longrightarrow> iocount s < ionum cfg) \<Longrightarrow>
   sint (sector_ofst s) \<le> sint (sector_ofst sf) \<and>
   sint (sector_ofst sf) \<le> sint (sector_max cfg) \<and>
   (0 < ionum cfg \<longrightarrow> iocount sf \<le> ionum cfg)"
proof (induction cfg env k s rule: read_loop.induct)
  case (1 cfg env k s)
  show ?case
  proof (cases "loop_body cfg env k s")
    case (Stop out)
    with "1.prems"(1) have "loop_body cfg env k s = Stop (Finished e sf)"
      by (simp add: read_loop_Stop)
    then have st: "loop_body cfg env k s = Continue sf \<or> loop_body cfg env k s = Stop (Finished e sf)"
      by simp
    from loop_body_invariant(1-3) [OF st calls_bounded_here [OF "1.prems"(2)] "1.prems"(3,4)]
    show ?thesis by simp
  next
    case (Continue s2)
    then have st: "loop_body cfg env k s = Continue s2 \<or> loop_body cfg env k s = Stop (Finished e s2)"
      by simp
    note step = loop_body_invariant [OF st calls_bounded_here [OF "1.prems"(2)] "1.prems"(3,4)]
    from "1.prems"(1) Continue have run: "read_loop cfg env (Suc k) s2 = Finished e sf"
      by (simp add: read_loop_Continue)
    from "1.IH" [OF Continue run calls_bounded_step [OF "1.prems"(2) Continue]
        step(2) step(4) [OF Continue]] step(1)
    show ?thesis by simp
  qed
qed

lemma read_loop_state_at:
  "state_at cfg env s0 k = Some s \<Longrightarrow> read_loop cfg env 0 s0 = read_loop cfg env k s"
proof (induction k arbitrary: s)
  case 0
  then show ?case by simp
next
  case (Suc k)
  then obtain s1 where s1: "state_at cfg env s0 k = Some s1" "loop_body cfg env k s1 = Continue s"
    by (auto split: option.splits step.splits)
  from Suc.IH [OF s1(1)] read_loop_Continue [OF s1(2)] show ?case by simp
qed

lemma loop_body_ionum_irrelevant:
  assumes big: "2 ^ 63 \<le> uint (ionum cfg)"
    and nn: "0 \<le> sint (sector_ofst s)"
    and cnt: "uint (iocount s) \<le> sint (sector_ofst s)"
  shows "loop_body (cfg\<lparr>ionum := 0\<rparr>) env k s = loop_body cfg env k s"
    and "\<And>s2. loop_body cfg env k s = Continue s2 \<Longrightarrow>
           0 \<le> sint (sector_ofst s2) \<and> uint (iocount s2) \<le> sint (sector_ofst s2)"
proof -
  have same: "want_sectors (cfg\<lparr>ionum := 0\<rparr>) = want_sectors cfg"
    "dispatch (cfg\<lparr>ionum := 0\<rparr>) = dispatch cfg"
    "write_out (cfg\<lparr>ionum := 0\<rparr>) = write_out cfg"
    by (simp_all add: fun_eq_iff want_sectors_def dispatch_def write_out_def Let_def
        split: option.splits)
  have key: "\<not> ionum cfg \<le> iocount s2 \<and> 0 \<le> sint (sector_ofst s2) \<and>
             uint (iocount s2) \<le> sint (sector_ofst s2)"
    if acc: "account s1 r = Some s2" and r: "\<not> r \<le>s 0"
      and s1: "sector_ofst s1 = sector_ofst s" "iocount s1 = iocount s" for s1 r s2
  proof -
    note a = account_sint [OF acc]
    have pos: "1 \<le> sint r" using r by (simp add: word_sle_eq)
    have "uint (iocount s2) \<le> uint (iocount s) + 1"
      using a(2) s1(2) uint_add_le [of "iocount s" 1] by simp
    also have "\<dots> \<le> sint (sector_ofst s2)" using a(1) s1(1) pos cnt by simp
    finally have c2: "uint (iocount s2) \<le> sint (sector_ofst s2)" .
    have "sint (sector_ofst s2) < 2 ^ 63" using sint_lt [of "sector_ofst s2"] by simp
    with c2 big have "uint (iocount s2) < uint (ionum cfg)" by simp
    then have "\<not> ionum cfg \<le> iocount s2" by (simp add: word_le_def)
    moreover have "0 \<le> sint (sector_ofst s2)" using a(1) s1(1) pos nn by simp
    ultimately show ?thesis using c2 by simp
  qed
  show "loop_body (cfg\<lparr>ionum := 0\<rparr>) env k s = loop_body cfg env k s"
    using key
    by (auto simp: loop_body_def Let_def same deliver_signals_def zbc_read_zone_sigcatcher_def
        split: option.splits sink_result.splits)
  show "0 \<le> sint (sector_ofst s2) \<and> uint (iocount s2) \<le> sint (sector_ofst s2)"
    if "loop_body cfg env k s = Continue s2" for s2
  proof (cases cfg env k s rule: loop_body_cases)
    case (completed w s3)
    with that have "s3 = s2" by (auto split: if_splits)
    with key [OF completed(5) completed(4)] show ?thesis by simp
  qed (use that in auto)
qed

lemma read_loop_ionum_irrelevant:
  "2 ^ 63 \<le> uint (ionum cfg) \<Longrightarrow> 0 \<le> sint (sector_ofst s) \<Longrightarrow>
   uint (iocount s) \<le> sint (sector_ofst s) \<Longrightarrow>
   read_loop cfg env k s = read_loop (cfg\<lparr>ionum := 0\<rparr>) env k s"
proof (induction cfg env k s rule: read_loop.induct)
  case (1 cfg env k s)
  note eq = loop_body_ionum_irrelevant(1) [OF "1.prems", of env k]
  show ?case
  proof (cases "loop_body cfg env k s")
    case (Stop out)
    with eq show ?thesis by (simp add: read_loop_Stop)
  next
    case (Continue s2)
    from loop_body_ionum_irrelevant(2) [OF "1.prems" Continue]
    have "read_loop cfg env (Suc k) s2 = read_loop (cfg\<lparr>ionum := 0\<rparr>) env (Suc k) s2"
      using "1.IH" [OF Continue "1.prems"(1)] by simp
    with Continue eq show ?thesis by (simp add: read_loop_Continue)
  qed
qed

lemma dispatch_vectored_iff:
  "dispatch cfg w ofst =
     (if fvio cfg \<and> 2 * (uint (zbd_lblock_size cfg) div 512) \<le> sint w
      then Preadv [Iovec 0 (s64_div2 w), Iovec (push_bit 9 (s64_div2 w)) (w - s64_div2 w)]
                  (zbc_zone_start (iozone cfg) + ofst)
      else Pread w (zbc_zone_start (iozone cfg) + ofst))"
  by (simp add: dispatch_def word_sle_eq sint_threshold)

lemma segment_lengths:
  assumes nn: "0 \<le> sint w" and small: "sint w < 2 ^ 55"
  shows "uint (s64_div2 w) = sint w div 2"
    and "uint (w - s64_div2 w) = sint w - sint w div 2"
    and "uint (push_bit 9 (s64_div2 w) :: u64) = 512 * (sint w div 2)"
proof -
  show h: "uint (s64_div2 w) = sint w div 2" using nn by (rule uint_s64_div2)
  have uw: "uint w = sint w" using nn by (rule uint_eq_sint_64)
  have "uint (s64_div2 w) \<le> uint w" using h uw nn by simp
  then have "uint (w - s64_div2 w) = uint w - uint (s64_div2 w)"
    by (simp add: uint_sub_lem)
  with h uw show "uint (w - s64_div2 w) = sint w - sint w div 2" by simp
  have "uint (push_bit 9 (s64_div2 w) :: u64) = (512 * uint (s64_div2 w)) mod 2 ^ 64"
    by (simp add: push_bit_eq_mult uint_word_ariths mult.commute)
  also have "\<dots> = 512 * uint (s64_div2 w)"
  proof (rule mod_pos_pos_trivial)
    show "0 \<le> 512 * uint (s64_div2 w)" by simp
    show "512 * uint (s64_div2 w) < 2 ^ 64" using h small nn by simp
  qed
  finally show "uint (push_bit 9 (s64_div2 w) :: u64) = 512 * (sint w div 2)"
    using h by simp
qed

lemma loop_body_reads:
  assumes "zbc_read_zone_abort (deliver_signals env k s) = 0"
    and "sector_ofst s <s sector_max cfg"
    and "want_sectors cfg (sector_ofst s) = Some w"
    and "loop_body cfg env k s = Continue s2 \<or> loop_body cfg env k s = Stop (Finished e s2)"
  shows "reads s2 = reads s @ [dispatch cfg w (sector_ofst s)]"
proof (cases cfg env k s rule: loop_body_cases)
  case (completed w' s3)
  with assms(4) have "s3 = s2" by (auto split: if_splits)
  with account_sint(4) [OF completed(5)] completed(3) assms(3) show ?thesis by simp
qed (use assms in auto)

lemma loop_body_completed:
  assumes "loop_body cfg env k s = Continue s2 \<or> loop_body cfg env k s = Stop (Finished Exit_budget s2)"
  shows "\<exists>w. want_sectors cfg (sector_ofst s) = Some w \<and>
             sector_ofst s <s sector_max cfg \<and>
             0 < sint (zbc_read env k (dispatch cfg w (sector_ofst s))) \<and>
             account (s\<lparr>reads := reads s @ [dispatch cfg w (sector_ofst s)]\<rparr>)
               (zbc_read env k (dispatch cfg w (sector_ofst s))) = Some s2"
proof (cases cfg env k s rule: loop_body_cases)
  case (completed w s3)
  with assms have "s3 = s2" by (auto split: if_splits)
  with completed show ?thesis by (auto simp: word_sle_eq)
qed (use assms in auto)

lemma want_sectors_defined:
  assumes "ofst <s sector_max cfg" and "0 \<le> sint ofst"
    and "sint (sector_max cfg) + uint (iosize cfg) div 512 < 2 ^ 63"
  shows "\<exists>w. want_sectors cfg ofst = Some w"
proof -
  have c: "sint (drop_bit 9 (iosize cfg)) = uint (iosize cfg) div 512"
    by (rule sint_drop_bit_9)
  have nn: "0 \<le> uint (iosize cfg) div 512" by (simp add: pos_imp_zdiv_nonneg_iff)
  have lt: "sint ofst < sint (sector_max cfg)" using assms(1) by (simp add: word_sless_alt)
  have "in_s64 (sint ofst + sint (drop_bit 9 (iosize cfg)))"
    using c nn lt assms(2,3) by (simp add: in_s64_def)
  moreover have "in_s64 (sint (sector_max cfg) - sint ofst)"
    using lt assms(2) sint_lt [of "sector_max cfg"] by (simp add: in_s64_def)
  ultimately show ?thesis
    by (simp add: want_sectors_def Let_def s64_add_def s64_sub_def)
qed

lemma loop_body_defined:
  assumes bound: "call_bounded cfg env k s"
    and nn: "0 \<le> sint (sector_ofst s)"
    and room: "sint (sector_max cfg) + uint (iosize cfg) div 512 < 2 ^ 63"
    and size: "uint (iosize cfg) < 2 ^ 63"
  shows "loop_body cfg env k s \<noteq> Stop Undefined_behaviour"
proof (cases "zbc_read_zone_abort (deliver_signals env k s) = 0 \<and> sector_ofst s <s sector_max cfg")
  case False
  then show ?thesis by (auto simp: loop_body_def Let_def)
next
  case True
  then have guard: "sector_ofst s <s sector_max cfg" and idle: "deliver_signals env k s = s"
    by (simp_all add: deliver_signals_idle)
  from want_sectors_defined [OF guard nn room] obtain w where
    w: "want_sectors cfg (sector_ofst s) = Some w" by blast
  let ?rq = "dispatch cfg w (sector_ofst s)"
  let ?r = "zbc_read env k ?rq"
  show ?thesis
  proof (cases "?r \<le>s 0")
    case True
    with \<open>zbc_read_zone_abort (deliver_signals env k s) = 0 \<and> sector_ofst s <s sector_max cfg\<close> w
    show ?thesis by (simp add: loop_body_def Let_def)
  next
    case False
    then have pos: "0 < sint ?r" by (simp add: word_sle_eq)
    from True have "zbc_read_zone_abort (deliver_signals env k s) = 0" by simp
    from call_boundedD [OF bound this guard w] have le: "sint ?r \<le> sint w" .
    note m = want_sectors_min [OF w guard]
    have "sint w \<le> uint (iosize cfg) div 512" using m by simp
    also have "\<dots> < 2 ^ 54" using size by simp
    finally have small: "sint ?r < 2 ^ 54" using le by simp
    have "sint w \<le> sint (sector_max cfg) - sint (sector_ofst s)" using m by simp
    with le have fit: "sint (sector_ofst s) + sint ?r \<le> sint (sector_max cfg)" by simp
    have shl: "s64_shl9 ?r = Some (push_bit 9 ?r)"
      using pos small by (simp add: s64_shl9_def in_s64_def)
    have add: "s64_add (sector_ofst s) ?r = Some (sector_ofst s + ?r)"
      using pos nn fit sint_lt [of "sector_max cfg"] by (simp add: s64_add_def in_s64_def)
    have wr: "write_out cfg env k ?r \<noteq> Sink_undefined"
      using shl by (simp add: write_out_def split: option.splits)
    have acc: "account (s\<lparr>reads := reads s @ [?rq]\<rparr>) ?r \<noteq> None"
      using shl add by (simp add: account_def)
    from True w False wr acc idle show ?thesis
      by (auto simp: loop_body_def Let_def split: sink_result.splits option.splits)
  qed
qed

lemma read_loop_defined:
  "calls_bounded cfg env k s \<Longrightarrow>
   0 \<le> sint (sector_ofst s) \<Longrightarrow>
   sint (sector_max cfg) + uint (iosize cfg) div 512 < 2 ^ 63 \<Longrightarrow>
   uint (iosize cfg) < 2 ^ 63 \<Longrightarrow>
   read_loop cfg env k s \<noteq> Undefined_behaviour"
proof (induction cfg env k s rule: read_loop.induct)
  case (1 cfg env k s)
  note d = loop_body_defined [OF calls_bounded_here [OF "1.prems"(1)] "1.prems"(2-4)]
  show ?case
  proof (cases "loop_body cfg env k s")
    case (Stop out)
    with d show ?thesis by (simp add: read_loop_Stop)
  next
    case (Continue s2)
    from loop_body_Continue_advances [OF Continue] "1.prems"(2)
    have "0 \<le> sint (sector_ofst s2)" by simp
    from "1.IH" [OF Continue calls_bounded_step [OF "1.prems"(1) Continue] this "1.prems"(3,4)]
      Continue
    show ?thesis by (simp add: read_loop_Continue)
  qed
qed

lemma loop_body_flag:
  assumes "loop_body cfg env k s = Continue s2 \<or> loop_body cfg env k s = Stop (Finished e s2)"
  shows "zbc_read_zone_abort s2 = zbc_read_zone_abort (deliver_signals env k s)"
proof (cases cfg env k s rule: loop_body_cases)
  case (completed w s3)
  with assms have "s3 = s2" by (auto split: if_splits)
  with account_sint(5) [OF completed(5)] completed(1) show ?thesis by simp
qed (use assms in auto)

lemma abort_flag_sticky:
  "zbc_read_zone_abort s \<noteq> 0 \<Longrightarrow> zbc_read_zone_abort (deliver_signals env k s) \<noteq> 0"
  by (simp add: deliver_signals_abort)

lemma read_loop_aborted:
  assumes "zbc_read_zone_abort (deliver_signals env k s) \<noteq> 0"
  shows "read_loop cfg env k s = Finished Exit_abort (deliver_signals env k s)"
  using assms by (intro read_loop_Stop) (simp add: loop_body_def Let_def)

lemma state_at_counts:
  "state_at cfg env s0 k = Some s \<Longrightarrow>
   iocount s = iocount s0 + of_nat k \<and> length (reads s) = length (reads s0) + k"
proof (induction k arbitrary: s)
  case 0
  then show ?case by simp
next
  case (Suc k)
  then obtain s1 where s1: "state_at cfg env s0 k = Some s1" "loop_body cfg env k s1 = Continue s"
    by (auto split: option.splits step.splits)
  then have "loop_body cfg env k s1 = Continue s \<or>
             loop_body cfg env k s1 = Stop (Finished Exit_budget s)" by simp
  from loop_body_completed [OF this] obtain w where
    "account (s1\<lparr>reads := reads s1 @ [dispatch cfg w (sector_ofst s1)]\<rparr>)
       (zbc_read env k (dispatch cfg w (sector_ofst s1))) = Some s" by blast
  from account_sint(2,4) [OF this] Suc.IH [OF s1(1)] show ?case by simp
qed

lemma throughput_report_defined: "throughput_report e b n \<noteq> None"
  by (simp add: throughput_report_def u64_div_def)

lemma uint_mult_million: "uint (x * 1000000 :: u64) = uint x * 1000000 mod 2 ^ 64"
  by (simp add: uint_word_ariths)

lemma cleanup_unlink:
  "Unlink name \<in> set (cleanup f fd sys r) \<longleftrightarrow> f = Some name \<and> 0 <s fd \<and> r \<noteq> 0"
  by (auto simp: cleanup_def split: option.splits)

lemma loop_body_lblock_irrelevant:
  assumes "\<not> fvio cfg"
  shows "loop_body (cfg\<lparr>zbd_lblock_size := lb\<rparr>) env k s = loop_body cfg env k s"
proof -
  have same: "want_sectors (cfg\<lparr>zbd_lblock_size := lb\<rparr>) = want_sectors cfg"
    "dispatch (cfg\<lparr>zbd_lblock_size := lb\<rparr>) = dispatch cfg"
    "write_out (cfg\<lparr>zbd_lblock_size := lb\<rparr>) = write_out cfg"
    using assms
    by (simp_all add: fun_eq_iff want_sectors_def dispatch_def write_out_def Let_def
        split: option.splits)
  show ?thesis
    by (simp add: loop_body_def same Let_def
        cong: if_cong option.case_cong sink_result.case_cong)
qed

lemma read_loop_lblock_irrelevant:
  "\<not> fvio cfg \<Longrightarrow> read_loop (cfg\<lparr>zbd_lblock_size := lb\<rparr>) env k s = read_loop cfg env k s"
proof (induction cfg env k s rule: read_loop.induct)
  case (1 cfg env k s)
  note eq = loop_body_lblock_irrelevant [OF "1.prems", of lb env k s]
  show ?case
  proof (cases "loop_body cfg env k s")
    case (Stop out)
    with eq show ?thesis by (simp add: read_loop_Stop)
  next
    case (Continue s2)
    with eq "1.IH" [OF Continue "1.prems"] show ?thesis by (simp add: read_loop_Continue)
  qed
qed

lemma uint_bcount_advance:
  fixes b r :: u64
  assumes "0 < sint r"
  shows "uint (b + 512 * r) = (uint b + 512 * sint r) mod 2 ^ 64"
proof -
  have "uint r = sint r" using assms by (simp add: uint_eq_sint_64)
  then have "uint (b + 512 * r) = (uint b + 512 * sint r mod 2 ^ 64) mod 2 ^ 64"
    by (simp add: uint_word_ariths)
  then show ?thesis by (simp add: mod_add_right_eq)
qed

lemma parse_nio_rejects_zero_only: "(\<exists>msg. parse_nio m = Inl msg) \<longleftrightarrow> m = 0"
proof -
  have "(scast m :: u64) = 0 \<longleftrightarrow> m = 0"
  proof
    assume "(scast m :: u64) = 0"
    then have "sint (scast m :: u64) = 0" by simp
    then have "sint m = 0" by (simp add: sint_up_scast is_up)
    then show "m = 0" by (simp add: signed_eq_0_iff)
  qed simp
  then show ?thesis by (auto simp: parse_nio_def Let_def)
qed

lemma want_sectors_unclamped:
  assumes "ofst <s sector_max cfg" and "0 \<le> sint ofst"
    and "sint ofst + uint (iosize cfg) div 512 \<le> sint (sector_max cfg)"
  shows "want_sectors cfg ofst = Some (drop_bit 9 (iosize cfg))"
proof -
  have c: "sint (drop_bit 9 (iosize cfg)) = uint (iosize cfg) div 512"
    by (rule sint_drop_bit_9)
  have nn: "0 \<le> uint (iosize cfg) div 512" by (simp add: pos_imp_zdiv_nonneg_iff)
  have "in_s64 (sint ofst + sint (drop_bit 9 (iosize cfg)))"
    using c nn assms(2,3) sint_lt [of "sector_max cfg"] by (simp add: in_s64_def)
  then have e: "s64_add ofst (drop_bit 9 (iosize cfg)) = Some (ofst + drop_bit 9 (iosize cfg))"
    by (simp add: s64_add_def)
  from s64_add_sint [OF e] c assms(3)
  have "\<not> sector_max cfg <s ofst + drop_bit 9 (iosize cfg)"
    by (simp add: word_sless_alt)
  with e show ?thesis by (simp add: want_sectors_def Let_def)
qed

lemma account_defined:
  assumes "0 < sint r" and "sint r < 2 ^ 54" and "in_s64 (sint (sector_ofst s) + sint r)"
  shows "account s r =
    Some (s\<lparr>sector_ofst := sector_ofst s + r, bcount := bcount s + 512 * r,
            iocount := iocount s + 1, ret := 0\<rparr>)"
proof -
  have "s64_shl9 r = Some (push_bit 9 r)"
    using assms(1,2) by (simp add: s64_shl9_def in_s64_def)
  moreover have "s64_add (sector_ofst s) r = Some (sector_ofst s + r)"
    using assms(3) by (simp add: s64_add_def)
  ultimately show ?thesis by (simp add: account_def push_bit_eq_mult)
qed

lemma loop_body_counts:
  assumes flag: "zbc_read_zone_abort (deliver_signals env k s) = 0"
    and guard: "sector_ofst s <s sector_max cfg"
    and nn: "0 \<le> sint (sector_ofst s)"
    and size: "uint (iosize cfg) < 2 ^ 63"
    and want: "want_sectors cfg (sector_ofst s) = Some w"
    and pos: "0 < sint (zbc_read env k (dispatch cfg w (sector_ofst s)))"
    and le: "sint (zbc_read env k (dispatch cfg w (sector_ofst s))) \<le> sint w"
    and sink: "write_out cfg env k (zbc_read env k (dispatch cfg w (sector_ofst s))) \<noteq> Sink_failed"
  shows "\<exists>s2. (loop_body cfg env k s = Continue s2 \<or>
               loop_body cfg env k s = Stop (Finished Exit_budget s2)) \<and>
              sector_ofst s2 = sector_ofst s + zbc_read env k (dispatch cfg w (sector_ofst s)) \<and>
              bcount s2 = bcount s + 512 * zbc_read env k (dispatch cfg w (sector_ofst s)) \<and>
              iocount s2 = iocount s + 1"
proof -
  let ?rq = "dispatch cfg w (sector_ofst s)"
  let ?r = "zbc_read env k ?rq"
  let ?s1 = "s\<lparr>reads := reads s @ [?rq]\<rparr>"
  have idle: "deliver_signals env k s = s" using flag by (rule deliver_signals_idle)
  note m = want_sectors_min [OF want guard]
  have "sint w \<le> uint (iosize cfg) div 512" using m by simp
  also have "\<dots> < 2 ^ 54" using size by simp
  finally have small: "sint ?r < 2 ^ 54" using le by simp
  have "sint w \<le> sint (sector_max cfg) - sint (sector_ofst s)" using m by simp
  with le have "sint (sector_ofst s) + sint ?r \<le> sint (sector_max cfg)" by simp
  with pos nn sint_lt [of "sector_max cfg"]
  have fit: "in_s64 (sint (sector_ofst ?s1) + sint ?r)" by (simp add: in_s64_def)
  note acc = account_defined [OF pos small fit]
  have "s64_shl9 ?r = Some (push_bit 9 ?r)"
    using pos small by (simp add: s64_shl9_def in_s64_def)
  then have "write_out cfg env k ?r \<noteq> Sink_undefined"
    by (simp add: write_out_def split: option.splits)
  with sink have ok: "write_out cfg env k ?r = Sink_ok"
    by (cases "write_out cfg env k ?r") simp_all
  have nf: "\<not> ?r \<le>s 0" using pos by (simp add: word_sle_eq)
  let ?s2 = "?s1\<lparr>sector_ofst := sector_ofst ?s1 + ?r, bcount := bcount ?s1 + 512 * ?r,
                 iocount := iocount ?s1 + 1, ret := 0\<rparr>"
  have "loop_body cfg env k s =
      (if 0 < ionum cfg \<and> ionum cfg \<le> iocount ?s2
       then Stop (Finished Exit_budget ?s2) else Continue ?s2)"
    using flag guard want nf ok acc idle by (simp add: loop_body_def Let_def)
  then have "(loop_body cfg env k s = Continue ?s2 \<or>
             loop_body cfg env k s = Stop (Finished Exit_budget ?s2)) \<and>
            sector_ofst ?s2 = sector_ofst s + ?r \<and> bcount ?s2 = bcount s + 512 * ?r \<and>
            iocount ?s2 = iocount s + 1"
    by (simp split: if_splits)
  then show ?thesis by blast
qed

section \<open>The claims\<close>

subsection \<open>C1: the read extent\<close>

text \<open>
  C1. For every zone descriptor the extent \<^verbatim>\<open>sector_max\<close> is the write pointer minus the
  start sector when the zone is sequential-write-required and not full, and the zone
  length otherwise. When the write pointer lies within the zone (start \<open>\<le>\<close> wp \<open>\<le>\<close>
  start + length) the extent does not exceed the zone length, and in the write-pointer
  case it is the exact difference of the two sector numbers. A sequential-write-required,
  not full zone whose write pointer equals its start has extent 0, and the loop then
  performs no iteration: it ends with the counters and the offset it started with and
  without a call of the read primitive.
\<close>

theorem C1_extent_limit:
  "(zbc_zone_sequential_req z \<and> \<not> zbc_zone_full z \<longrightarrow>
      sector_max_of z = zbc_zone_wp z - zbc_zone_start z) \<and>
   (\<not> (zbc_zone_sequential_req z \<and> \<not> zbc_zone_full z) \<longrightarrow>
      sector_max_of z = zbc_zone_length z) \<and>
   (uint (zbc_zone_start z) \<le> uint (zbc_zone_wp z) \<and>
    uint (zbc_zone_wp z) \<le> uint (zbc_zone_start z) + uint (zbc_zone_length z) \<longrightarrow>
      sint (sector_max_of z) \<le> uint (zbc_zone_length z) \<and>
      (zbc_zone_sequential_req z \<and> \<not> zbc_zone_full z \<longrightarrow>
         uint (sector_max_of z) = uint (zbc_zone_wp z) - uint (zbc_zone_start z))) \<and>
   (zbc_zone_sequential_req z \<and> \<not> zbc_zone_full z \<and> zbc_zone_wp z = zbc_zone_start z \<longrightarrow>
      sector_max_of z = 0 \<and>
      (\<forall>cfg env ofst. sector_max cfg = sector_max_of z \<and> 0 \<le> sint ofst \<longrightarrow>
         (\<exists>e sf. read_loop cfg env 0 (initial_session ofst) = Finished e sf \<and>
                 sector_ofst sf = ofst \<and> bcount sf = 0 \<and> iocount sf = 0 \<and> reads sf = [])))"
proof (intro conjI impI allI)
  assume "zbc_zone_sequential_req z \<and> \<not> zbc_zone_full z"
  then show "sector_max_of z = zbc_zone_wp z - zbc_zone_start z"
    by (simp add: sector_max_of_def)
next
  assume "\<not> (zbc_zone_sequential_req z \<and> \<not> zbc_zone_full z)"
  then show "sector_max_of z = zbc_zone_length z"
    by (auto simp: sector_max_of_def)
next
  assume "uint (zbc_zone_start z) \<le> uint (zbc_zone_wp z) \<and>
          uint (zbc_zone_wp z) \<le> uint (zbc_zone_start z) + uint (zbc_zone_length z)"
  then show "sint (sector_max_of z) \<le> uint (zbc_zone_length z)"
    by (simp add: sector_max_of_within)
next
  assume "uint (zbc_zone_start z) \<le> uint (zbc_zone_wp z) \<and>
          uint (zbc_zone_wp z) \<le> uint (zbc_zone_start z) + uint (zbc_zone_length z)"
    and "zbc_zone_sequential_req z \<and> \<not> zbc_zone_full z"
  then show "uint (sector_max_of z) = uint (zbc_zone_wp z) - uint (zbc_zone_start z)"
    by (simp add: uint_sector_max_of)
next
  assume "zbc_zone_sequential_req z \<and> \<not> zbc_zone_full z \<and> zbc_zone_wp z = zbc_zone_start z"
  then show "sector_max_of z = 0"
    by (simp add: sector_max_of_def)
next
  fix cfg :: config and env :: environment and ofst :: s64
  assume z: "zbc_zone_sequential_req z \<and> \<not> zbc_zone_full z \<and> zbc_zone_wp z = zbc_zone_start z"
    and c: "sector_max cfg = sector_max_of z \<and> 0 \<le> sint ofst"
  from z have "sector_max_of z = 0" by (simp add: sector_max_of_def)
  with c have "\<not> sector_ofst (initial_session ofst) <s sector_max cfg"
    by (simp add: initial_session_def word_sless_alt)
  from loop_body_no_extent [OF this, of env 0] obtain e where
    "loop_body cfg env 0 (initial_session ofst) =
       Stop (Finished e (deliver_signals env 0 (initial_session ofst)))" ..
  then have "read_loop cfg env 0 (initial_session ofst) =
       Finished e (deliver_signals env 0 (initial_session ofst))"
    by (rule read_loop_Stop)
  then show "\<exists>e sf. read_loop cfg env 0 (initial_session ofst) = Finished e sf \<and>
                 sector_ofst sf = ofst \<and> bcount sf = 0 \<and> iocount sf = 0 \<and> reads sf = []"
    by (simp add: initial_session_def)
qed

theorem C1_extent_limit_witness:
  "sector_max_of zone_half_written = 1500 - 1000 \<and>
   sint (sector_max_of zone_half_written) \<le> 1000 \<and>
   uint (sector_max_of zone_half_written) = 500 \<and>
   sector_max_of zone_conventional = 100 \<and>
   sector_max_of zone_empty = 0 \<and>
   (\<exists>e sf. read_loop (config_for zone_empty 4096) device_ok 0 (initial_session 0) = Finished e sf \<and>
           sector_ofst sf = 0 \<and> bcount sf = 0 \<and> iocount sf = 0 \<and> reads sf = [])"
proof -
  note a = C1_extent_limit [of zone_half_written]
  note b = C1_extent_limit [of zone_conventional]
  note c = C1_extent_limit [of zone_empty]
  have c': "sector_max_of zone_empty = 0 \<and>
      (\<forall>cfg env ofst. sector_max cfg = sector_max_of zone_empty \<and> 0 \<le> sint ofst \<longrightarrow>
         (\<exists>e sf. read_loop cfg env 0 (initial_session ofst) = Finished e sf \<and>
                 sector_ofst sf = ofst \<and> bcount sf = 0 \<and> iocount sf = 0 \<and> reads sf = []))"
    using c
    by (simp add: zone_empty_def zbc_zone_sequential_req_def zbc_zone_full_def
        zbc_zone_wp_def zbc_zone_start_def)
  then have "\<exists>e sf. read_loop (config_for zone_empty 4096) device_ok 0 (initial_session 0) = Finished e sf \<and>
           sector_ofst sf = 0 \<and> bcount sf = 0 \<and> iocount sf = 0 \<and> reads sf = []"
    by (simp add: config_for_def)
  moreover have "sector_max_of zone_half_written = 1500 - 1000 \<and>
      sint (sector_max_of zone_half_written) \<le> 1000 \<and>
      uint (sector_max_of zone_half_written) = 500"
    using a
    by (simp add: zone_half_written_def zbc_zone_sequential_req_def zbc_zone_full_def
        zbc_zone_wp_def zbc_zone_start_def zbc_zone_length_def)
  moreover have "sector_max_of zone_conventional = 100"
    using b
    by (simp add: zone_conventional_def zbc_zone_sequential_req_def zbc_zone_full_def
        zbc_zone_wp_def zbc_zone_start_def zbc_zone_length_def)
  ultimately show ?thesis using c' by simp
qed

subsection \<open>C2: the shape of each read\<close>

text \<open>
  C2. In an iteration that passes the loop test, with \<open>w\<close> the clamped request size:
  when vectored mode is configured and \<open>w\<close> is at least twice the logical block size in
  sectors, the call is a two-segment \<^verbatim>\<open>zbc_preadv\<close> at start sector plus offset, whose
  first segment has \<open>w div 2\<close> sectors and starts at the buffer, whose second segment has
  the remaining \<open>w - w div 2\<close> sectors and starts at the byte where the first ends, both
  inside the buffer of \<^verbatim>\<open>iosize\<close> bytes, so that the lengths sum to \<open>w\<close>; otherwise the call
  is one \<^verbatim>\<open>zbc_pread\<close> of \<open>w\<close> sectors at start sector plus offset. \<open>w\<close> is the minimum of
  \<^verbatim>\<open>iosize >> 9\<close> and what is left of the extent, and the iteration makes exactly this
  call.
\<close>

theorem C2_read_shape:
  assumes guard: "sector_ofst s <s sector_max cfg"
    and want: "want_sectors cfg (sector_ofst s) = Some w"
  shows "(fvio cfg \<and> 2 * (uint (zbd_lblock_size cfg) div 512) \<le> sint w \<longrightarrow>
            (\<exists>len0 base1 len1.
               dispatch cfg w (sector_ofst s) =
                 Preadv [Iovec 0 len0, Iovec base1 len1]
                        (zbc_zone_start (iozone cfg) + sector_ofst s) \<and>
               uint len0 = sint w div 2 \<and>
               uint len1 = sint w - sint w div 2 \<and>
               uint len0 + uint len1 = sint w \<and>
               uint base1 = 512 * uint len0 \<and>
               uint base1 + 512 * uint len1 \<le> uint (iosize cfg))) \<and>
         (\<not> (fvio cfg \<and> 2 * (uint (zbd_lblock_size cfg) div 512) \<le> sint w) \<longrightarrow>
            dispatch cfg w (sector_ofst s) =
              Pread w (zbc_zone_start (iozone cfg) + sector_ofst s)) \<and>
         sint w = min (uint (iosize cfg) div 512) (sint (sector_max cfg) - sint (sector_ofst s)) \<and>
         (\<forall>env k e s2.
            zbc_read_zone_abort (deliver_signals env k s) = 0 \<and>
            (loop_body cfg env k s = Continue s2 \<or> loop_body cfg env k s = Stop (Finished e s2)) \<longrightarrow>
            reads s2 = reads s @ [dispatch cfg w (sector_ofst s)])"
proof (intro conjI impI allI)
  note b = want_sectors_bounds [OF want guard]
  note l = segment_lengths [OF b(1) b(3)]
  assume "fvio cfg \<and> 2 * (uint (zbd_lblock_size cfg) div 512) \<le> sint w"
  then have d: "dispatch cfg w (sector_ofst s) =
      Preadv [Iovec 0 (s64_div2 w), Iovec (push_bit 9 (s64_div2 w)) (w - s64_div2 w)]
             (zbc_zone_start (iozone cfg) + sector_ofst s)"
    by (simp add: dispatch_vectored_iff)
  have "uint (push_bit 9 (s64_div2 w) :: u64) + 512 * uint (w - s64_div2 w) = 512 * sint w"
    using l by simp
  with b(2) have fit: "uint (push_bit 9 (s64_div2 w) :: u64) + 512 * uint (w - s64_div2 w)
      \<le> uint (iosize cfg)" by simp
  show "\<exists>len0 base1 len1.
               dispatch cfg w (sector_ofst s) =
                 Preadv [Iovec 0 len0, Iovec base1 len1]
                        (zbc_zone_start (iozone cfg) + sector_ofst s) \<and>
               uint len0 = sint w div 2 \<and>
               uint len1 = sint w - sint w div 2 \<and>
               uint len0 + uint len1 = sint w \<and>
               uint base1 = 512 * uint len0 \<and>
               uint base1 + 512 * uint len1 \<le> uint (iosize cfg)"
    using d l fit by (intro exI [of _ "s64_div2 w"] exI [of _ "push_bit 9 (s64_div2 w)"]
        exI [of _ "w - s64_div2 w"]) simp
next
  assume "\<not> (fvio cfg \<and> 2 * (uint (zbd_lblock_size cfg) div 512) \<le> sint w)"
  then show "dispatch cfg w (sector_ofst s) = Pread w (zbc_zone_start (iozone cfg) + sector_ofst s)"
    by (simp add: dispatch_vectored_iff)
next
  show "sint w = min (uint (iosize cfg) div 512) (sint (sector_max cfg) - sint (sector_ofst s))"
    using want guard by (rule want_sectors_min)
next
  fix env k e s2
  assume "zbc_read_zone_abort (deliver_signals env k s) = 0 \<and>
          (loop_body cfg env k s = Continue s2 \<or> loop_body cfg env k s = Stop (Finished e s2))"
  then show "reads s2 = reads s @ [dispatch cfg w (sector_ofst s)]"
    using loop_body_reads [OF _ guard want] by blast
qed


theorem C2_read_shape_witness:
  "(\<exists>len0 base1 len1.
      dispatch config_vectored 8 0 = Preadv [Iovec 0 len0, Iovec base1 len1] 1000 \<and>
      uint len0 = 4 \<and> uint len1 = 4 \<and> uint base1 = 2048) \<and>
   dispatch (config_for zone_half_written 4096) 4 496 = Pread 4 1496 \<and>
   (\<exists>s2. loop_body config_vectored device_ok 0 (initial_session 0) = Continue s2 \<and>
         reads s2 = [dispatch config_vectored 8 0])"
proof -
  have zmax: "sector_max_of zone_half_written = 500"
    by (simp add: sector_max_of_def zone_half_written_def zbc_zone_sequential_req_def
        zbc_zone_full_def zbc_zone_wp_def zbc_zone_start_def)
  have g1: "sector_ofst (initial_session 0) <s sector_max config_vectored"
    by (simp add: initial_session_def config_vectored_def config_for_def zmax word_sless_alt)
  have w1: "want_sectors config_vectored (sector_ofst (initial_session 0)) = Some 8"
    by (simp add: initial_session_def config_vectored_def config_for_def zmax want_sectors_def
        s64_add_def s64_sub_def in_s64_def word_sless_alt)
  have g2: "sector_ofst (initial_session 496) <s sector_max (config_for zone_half_written 4096)"
    by (simp add: initial_session_def config_for_def zmax word_sless_alt)
  have w2: "want_sectors (config_for zone_half_written 4096) (sector_ofst (initial_session 496)) = Some 4"
    by (simp add: initial_session_def config_for_def zmax want_sectors_def
        s64_add_def s64_sub_def in_s64_def word_sless_alt)
  have st: "loop_body config_vectored device_ok 0 (initial_session 0) =
      Continue \<lparr>sector_ofst = 8, bcount = 4096, iocount = 1, ret = 0, zbc_read_zone_abort = 0,
                reads = [Preadv [Iovec 0 4, Iovec 2048 4] 1000]\<rparr>"
    by code_simp
  have fl: "zbc_read_zone_abort (deliver_signals device_ok 0 (initial_session 0)) = 0"
    by (simp add: deliver_signals_def device_ok_def initial_session_def)
  note a = C2_read_shape [OF g1 w1]
  note b = C2_read_shape [OF g2 w2]
  let ?s2 = "\<lparr>sector_ofst = 8, bcount = 4096, iocount = 1, ret = 0, zbc_read_zone_abort = 0,
              reads = [Preadv [Iovec 0 4, Iovec 2048 4] 1000]\<rparr>"
  have "reads ?s2 = reads (initial_session 0) @
          [dispatch config_vectored 8 (sector_ofst (initial_session 0))]"
    using a fl st by blast
  then have "reads ?s2 = [dispatch config_vectored 8 0]"
    by (simp add: initial_session_def)
  with st have "\<exists>s2. loop_body config_vectored device_ok 0 (initial_session 0) = Continue s2 \<and>
         reads s2 = [dispatch config_vectored 8 0]"
    by blast
  moreover have "\<exists>len0 base1 len1.
      dispatch config_vectored 8 0 = Preadv [Iovec 0 len0, Iovec base1 len1] 1000 \<and>
      uint len0 = 4 \<and> uint len1 = 4 \<and> uint base1 = 2048"
  proof -
    have "fvio config_vectored \<and>
          2 * (uint (zbd_lblock_size config_vectored) div 512) \<le> sint (8 :: s64)"
      by (simp add: config_vectored_def config_for_def)
    with a obtain len0 base1 len1 where
      d: "dispatch config_vectored 8 (sector_ofst (initial_session 0)) =
            Preadv [Iovec 0 len0, Iovec base1 len1]
                   (zbc_zone_start (iozone config_vectored) + sector_ofst (initial_session 0))"
        "uint len0 = sint (8 :: s64) div 2"
        "uint len1 = sint (8 :: s64) - sint (8 :: s64) div 2"
        "uint base1 = 512 * uint len0"
      by blast
    then have "dispatch config_vectored 8 0 = Preadv [Iovec 0 len0, Iovec base1 len1] 1000 \<and>
        uint len0 = 4 \<and> uint len1 = 4 \<and> uint base1 = 2048"
      by (simp add: initial_session_def config_vectored_def config_for_def zbc_zone_start_def
          zone_half_written_def)
    then show ?thesis by blast
  qed
  moreover have "dispatch (config_for zone_half_written 4096) 4 496 = Pread 4 1496"
    using b
    by (simp add: initial_session_def config_for_def zbc_zone_start_def zone_half_written_def)
  ultimately show ?thesis by simp
qed

subsection \<open>C3: the session invariant\<close>

text \<open>
  C3. Assume that every call of the read primitive that the run makes from the top of
  an iteration on returns at most the sector count requested (a failed read, with its
  zero or negative result, included), and that at the top of that iteration the offset does not exceed the extent
  and, when a budget is set, the I/O count is below it (as it is at the start, with a
  count of zero). Then, whichever way the iteration ends, the offset has not decreased
  and does not exceed the extent, and the I/O count does not exceed a set budget; an
  iteration that goes on to the next one re-establishes the assumption on the count. An
  iteration that completes its I/O requested the minimum of \<^verbatim>\<open>iosize >> 9\<close> and what was
  left of the extent, and advanced the offset by exactly the positive number of sectors
  the read primitive returned (which may be less than requested) and the I/O count by
  one. Hence every run that finishes does so with an offset between the initial one
  and the extent and with an I/O count within a set budget.
\<close>

theorem C3_session_invariant:
  assumes bound: "calls_bounded cfg env k s"
    and inv_ofst: "sint (sector_ofst s) \<le> sint (sector_max cfg)"
    and inv_ios: "0 < ionum cfg \<longrightarrow> iocount s < ionum cfg"
  shows "(\<forall>e s2. loop_body cfg env k s = Continue s2 \<or>
                 loop_body cfg env k s = Stop (Finished e s2) \<longrightarrow>
            sint (sector_ofst s) \<le> sint (sector_ofst s2) \<and>
            sint (sector_ofst s2) \<le> sint (sector_max cfg) \<and>
            (0 < ionum cfg \<longrightarrow> iocount s2 \<le> ionum cfg)) \<and>
         (\<forall>s2. loop_body cfg env k s = Continue s2 \<longrightarrow>
            (0 < ionum cfg \<longrightarrow> iocount s2 < ionum cfg)) \<and>
         (\<forall>s2. loop_body cfg env k s = Continue s2 \<or>
               loop_body cfg env k s = Stop (Finished Exit_budget s2) \<longrightarrow>
            (\<exists>w r. want_sectors cfg (sector_ofst s) = Some w \<and>
                   sint w = min (uint (iosize cfg) div 512)
                                (sint (sector_max cfg) - sint (sector_ofst s)) \<and>
                   r = zbc_read env k (dispatch cfg w (sector_ofst s)) \<and>
                   0 < sint r \<and> sint r \<le> sint w \<and>
                   sint (sector_ofst s2) = sint (sector_ofst s) + sint r \<and>
                   iocount s2 = iocount s + 1)) \<and>
         (\<forall>e sf. read_loop cfg env k s = Finished e sf \<longrightarrow>
            sint (sector_ofst s) \<le> sint (sector_ofst sf) \<and>
            sint (sector_ofst sf) \<le> sint (sector_max cfg) \<and>
            (0 < ionum cfg \<longrightarrow> iocount sf \<le> ionum cfg)) \<and>
         (0 \<le> sint (sector_ofst s) \<and>
          sint (sector_max cfg) + uint (iosize cfg) div 512 < 2 ^ 63 \<and>
          uint (iosize cfg) < 2 ^ 63 \<longrightarrow>
            (\<exists>e sf. read_loop cfg env k s = Finished e sf))"
proof (intro conjI allI impI)
  fix e s2
  assume st: "loop_body cfg env k s = Continue s2 \<or> loop_body cfg env k s = Stop (Finished e s2)"
  note i = loop_body_invariant [OF st calls_bounded_here [OF bound] inv_ofst inv_ios]
  show "sint (sector_ofst s) \<le> sint (sector_ofst s2)" by (rule i(1))
  show "sint (sector_ofst s2) \<le> sint (sector_max cfg)" by (rule i(2))
  assume "0 < ionum cfg"
  with i(3) show "iocount s2 \<le> ionum cfg" by simp
next
  fix s2
  assume c: "loop_body cfg env k s = Continue s2" and b: "0 < ionum cfg"
  then have "loop_body cfg env k s = Continue s2 \<or>
             loop_body cfg env k s = Stop (Finished Exit_budget s2)" by simp
  from loop_body_invariant(4) [OF this calls_bounded_here [OF bound] inv_ofst inv_ios c] b
  show "iocount s2 < ionum cfg" by simp
next
  fix s2
  assume st: "loop_body cfg env k s = Continue s2 \<or>
          loop_body cfg env k s = Stop (Finished Exit_budget s2)"
  from loop_body_completed [OF st] obtain w where
    w: "want_sectors cfg (sector_ofst s) = Some w" "sector_ofst s <s sector_max cfg"
       "0 < sint (zbc_read env k (dispatch cfg w (sector_ofst s)))"
       "account (s\<lparr>reads := reads s @ [dispatch cfg w (sector_ofst s)]\<rparr>)
          (zbc_read env k (dispatch cfg w (sector_ofst s))) = Some s2"
    by blast
  note a = account_sint [OF w(4)]
  have "sint (zbc_read env k (dispatch cfg w (sector_ofst s))) \<le> sint w"
    using call_boundedD [OF calls_bounded_here [OF bound] loop_body_completed_flag [OF st] w(2) w(1)] .
  with w(1) w(3) want_sectors_min [OF w(1) w(2)] a(1) a(2)
  show "\<exists>w r. want_sectors cfg (sector_ofst s) = Some w \<and>
                   sint w = min (uint (iosize cfg) div 512)
                                (sint (sector_max cfg) - sint (sector_ofst s)) \<and>
                   r = zbc_read env k (dispatch cfg w (sector_ofst s)) \<and>
                   0 < sint r \<and> sint r \<le> sint w \<and>
                   sint (sector_ofst s2) = sint (sector_ofst s) + sint r \<and>
                   iocount s2 = iocount s + 1"
    by simp
next
  fix e sf
  assume run: "read_loop cfg env k s = Finished e sf"
  note r = read_loop_invariant [OF run bound inv_ofst inv_ios]
  from r show "sint (sector_ofst s) \<le> sint (sector_ofst sf)" by simp
  from r show "sint (sector_ofst sf) \<le> sint (sector_max cfg)" by simp
  assume "0 < ionum cfg"
  with r show "iocount sf \<le> ionum cfg" by simp
next
  assume "0 \<le> sint (sector_ofst s) \<and>
          sint (sector_max cfg) + uint (iosize cfg) div 512 < 2 ^ 63 \<and>
          uint (iosize cfg) < 2 ^ 63"
  with read_loop_defined [OF bound] have "read_loop cfg env k s \<noteq> Undefined_behaviour"
    by simp
  then show "\<exists>e sf. read_loop cfg env k s = Finished e sf"
    by (cases "read_loop cfg env k s") simp_all
qed

theorem C3_session_invariant_witness:
  "(\<exists>s2. loop_body config_budget device_short 0 (initial_session 0) = Continue s2 \<and>
         sint (sector_ofst s2) = 3 \<and>
         sint (sector_ofst s2) \<le> sint (sector_max config_budget) \<and>
         iocount s2 = 1 \<and> iocount s2 < ionum config_budget) \<and>
   (\<exists>sf. read_loop config_budget device_short 0 (initial_session 0) = Finished Exit_budget sf \<and>
         sint (sector_ofst (initial_session 0)) \<le> sint (sector_ofst sf) \<and>
         sint (sector_ofst sf) \<le> sint (sector_max config_budget) \<and>
         iocount sf \<le> ionum config_budget) \<and>
   calls_bounded (config_for zone_half_written 4096) device_failing 0 (initial_session 0) \<and>
   (\<exists>sf. read_loop (config_for zone_half_written 4096) device_failing 0 (initial_session 0) =
           Finished Exit_read_failed sf \<and>
         sint (sector_ofst sf) = 8 \<and>
         sint (sector_ofst (initial_session 0)) \<le> sint (sector_ofst sf) \<and>
         sint (sector_ofst sf) \<le> sint (sector_max (config_for zone_half_written 4096)))"
proof -
  have "\<forall>j w ofst. 0 \<le> sint w \<longrightarrow>
          sint (zbc_read device_short j (dispatch config_budget w ofst)) \<le> sint w"
    by (simp add: device_short_def dispatch_def config_budget_def config_for_def word_sle_eq)
  then have bound: "calls_bounded config_budget device_short 0 (initial_session 0)"
    by (rule calls_bounded_device)
  have inv_ofst: "sint (sector_ofst (initial_session 0)) \<le> sint (sector_max config_budget)"
    by (simp add: initial_session_def config_budget_def config_for_def sector_max_of_def
        zone_half_written_def zbc_zone_sequential_req_def zbc_zone_full_def zbc_zone_wp_def
        zbc_zone_start_def)
  have inv_ios: "0 < ionum config_budget \<longrightarrow> iocount (initial_session 0) < ionum config_budget"
    by (simp add: initial_session_def config_budget_def config_for_def)
  have budget: "0 < ionum config_budget"
    by (simp add: config_budget_def config_for_def)
  let ?s2 = "\<lparr>sector_ofst = 3, bcount = 1536, iocount = 1, ret = 0,
              zbc_read_zone_abort = 0, reads = [Pread 8 1000]\<rparr>"
  let ?sf = "\<lparr>sector_ofst = 6, bcount = 3072, iocount = 2, ret = 0,
              zbc_read_zone_abort = 0, reads = [Pread 8 1000, Pread 8 1003]\<rparr>"
  have step: "loop_body config_budget device_short 0 (initial_session 0) = Continue ?s2"
    by code_simp
  have run: "read_loop config_budget device_short 0 (initial_session 0) = Finished Exit_budget ?sf"
    by code_simp
  note t = C3_session_invariant [OF bound inv_ofst inv_ios]
  from t step budget have "sint (sector_ofst ?s2) \<le> sint (sector_max config_budget) \<and>
      iocount ?s2 < ionum config_budget"
    by blast
  with step have one: "\<exists>s2. loop_body config_budget device_short 0 (initial_session 0) = Continue s2 \<and>
         sint (sector_ofst s2) = 3 \<and>
         sint (sector_ofst s2) \<le> sint (sector_max config_budget) \<and>
         iocount s2 = 1 \<and> iocount s2 < ionum config_budget"
    by simp
  from t run budget have "sint (sector_ofst (initial_session 0)) \<le> sint (sector_ofst ?sf) \<and>
         sint (sector_ofst ?sf) \<le> sint (sector_max config_budget) \<and>
         iocount ?sf \<le> ionum config_budget"
    by blast
  with run have two: "\<exists>sf. read_loop config_budget device_short 0 (initial_session 0) = Finished Exit_budget sf \<and>
         sint (sector_ofst (initial_session 0)) \<le> sint (sector_ofst sf) \<and>
         sint (sector_ofst sf) \<le> sint (sector_max config_budget) \<and>
         iocount sf \<le> ionum config_budget"
    by blast
  let ?cfg = "config_for zone_half_written 4096"
  let ?f1 = "\<lparr>sector_ofst = 8, bcount = 4096, iocount = 1, ret = 0,
              zbc_read_zone_abort = 0, reads = [Pread 8 1000]\<rparr>"
  let ?ff = "\<lparr>sector_ofst = 8, bcount = 4096, iocount = 1, ret = 1,
              zbc_read_zone_abort = 0, reads = [Pread 8 1000, Pread 8 1008]\<rparr>"
  have f_step0: "loop_body ?cfg device_failing 0 (initial_session 0) = Continue ?f1"
    by code_simp
  have f_step1: "loop_body ?cfg device_failing (Suc 0) ?f1 = Stop (Finished Exit_read_failed ?ff)"
    by code_simp
  have f_call0: "call_bounded ?cfg device_failing 0 (initial_session 0)"
    by code_simp
  have f_call1: "call_bounded ?cfg device_failing (Suc 0) ?f1"
    by code_simp
  have f_bound: "calls_bounded ?cfg device_failing 0 (initial_session 0)"
    unfolding calls_bounded_def
  proof (intro allI impI)
    fix j sj
    assume reach: "state_from ?cfg device_failing 0 (initial_session 0) j = Some sj"
    show "call_bounded ?cfg device_failing (0 + j) sj"
    proof (cases j)
      case 0
      with reach f_call0 show ?thesis by simp
    next
      case (Suc j1)
      with reach f_step0 have r1: "state_from ?cfg device_failing (Suc 0) ?f1 j1 = Some sj"
        by simp
      show ?thesis
      proof (cases j1)
        case 0
        with r1 Suc f_call1 show ?thesis by simp
      next
        case (Suc j2)
        with r1 f_step1 show ?thesis by simp
      qed
    qed
  qed
  have f_inv: "sint (sector_ofst (initial_session 0)) \<le> sint (sector_max ?cfg)"
    by code_simp
  have f_ios: "0 < ionum ?cfg \<longrightarrow> iocount (initial_session 0) < ionum ?cfg"
    by (simp add: config_for_def)
  have f_run: "read_loop ?cfg device_failing 0 (initial_session 0) = Finished Exit_read_failed ?ff"
    by code_simp
  note u = C3_session_invariant [OF f_bound f_inv f_ios]
  from u f_run have "sint (sector_ofst (initial_session 0)) \<le> sint (sector_ofst ?ff) \<and>
         sint (sector_ofst ?ff) \<le> sint (sector_max ?cfg)"
    by blast
  with f_run have three: "\<exists>sf. read_loop ?cfg device_failing 0 (initial_session 0) =
           Finished Exit_read_failed sf \<and>
         sint (sector_ofst sf) = 8 \<and>
         sint (sector_ofst (initial_session 0)) \<le> sint (sector_ofst sf) \<and>
         sint (sector_ofst sf) \<le> sint (sector_max ?cfg)"
    by simp
  from one two f_bound three show ?thesis by blast
qed

subsection \<open>C4: cooperative abort\<close>

text \<open>
  C4. Once the abort flag is set it stays set: the handler only stores 1, an iteration
  of the loop leaves the flag as the signal delivery left it, and a loop entered with
  the flag set ends at once in the aborted state, with the flag set, without a call of
  the read primitive and with its counters untouched. The flag is read only in the loop
  test: a signal delivered after the test of an iteration does not keep that iteration
  from completing and being counted, and when the run has reached the top of iteration
  \<open>k\<close> and a signal has been delivered since the previous test, the run ends there in
  the aborted state with the counters of the \<open>k\<close> completed I/Os. In particular a signal
  delivered after the first read was dispatched and before the second iteration begins
  ends the run in the aborted state after exactly one I/O, whose sectors and bytes are
  in the counters.
\<close>

theorem C4_cooperative_abort:
  "(zbc_read_zone_abort s \<noteq> 0 \<longrightarrow>
      zbc_read_zone_abort (deliver_signals env k s) \<noteq> 0 \<and>
      read_loop cfg env k s = Finished Exit_abort (deliver_signals env k s) \<and>
      reads (deliver_signals env k s) = reads s \<and>
      iocount (deliver_signals env k s) = iocount s \<and>
      bcount (deliver_signals env k s) = bcount s \<and>
      sector_ofst (deliver_signals env k s) = sector_ofst s) \<and>
   zbc_read_zone_abort (zbc_read_zone_sigcatcher s) = 1 \<and>
   (\<forall>e s2. loop_body cfg env k s = Continue s2 \<or>
           loop_body cfg env k s = Stop (Finished e s2) \<longrightarrow>
      zbc_read_zone_abort s2 = zbc_read_zone_abort (deliver_signals env k s)) \<and>
   (\<forall>s0 sk. state_at cfg env s0 k = Some sk \<and> signal_at env k \<longrightarrow>
      read_loop cfg env 0 s0 = Finished Exit_abort (zbc_read_zone_sigcatcher sk) \<and>
      iocount sk = iocount s0 + of_nat k \<and>
      length (reads sk) = length (reads s0) + k) \<and>
   (\<forall>ofst s1. loop_body cfg env 0 (initial_session ofst) = Continue s1 \<and> signal_at env 1 \<longrightarrow>
      (\<exists>sf r. read_loop cfg env 0 (initial_session ofst) = Finished Exit_abort sf \<and>
              zbc_read_zone_abort sf = 1 \<and> ret sf = 0 \<and>
              iocount sf = 1 \<and> length (reads sf) = 1 \<and>
              0 < sint r \<and> sector_ofst sf = ofst + r \<and> bcount sf = 512 * r))"
proof (intro conjI allI impI)
  assume set: "zbc_read_zone_abort s \<noteq> 0"
  then show d: "zbc_read_zone_abort (deliver_signals env k s) \<noteq> 0"
    by (rule abort_flag_sticky)
  then show "read_loop cfg env k s = Finished Exit_abort (deliver_signals env k s)"
    by (rule read_loop_aborted)
next
  show "zbc_read_zone_abort (zbc_read_zone_sigcatcher s) = 1"
    by (simp add: zbc_read_zone_sigcatcher_def)
next
  fix e s2
  assume "loop_body cfg env k s = Continue s2 \<or> loop_body cfg env k s = Stop (Finished e s2)"
  then show "zbc_read_zone_abort s2 = zbc_read_zone_abort (deliver_signals env k s)"
    by (rule loop_body_flag)
next
  fix s0 sk
  assume a: "state_at cfg env s0 k = Some sk \<and> signal_at env k"
  then have d: "deliver_signals env k sk = zbc_read_zone_sigcatcher sk"
    by (simp add: deliver_signals_def)
  then have "zbc_read_zone_abort (deliver_signals env k sk) \<noteq> 0"
    by (simp add: zbc_read_zone_sigcatcher_def)
  from read_loop_aborted [OF this, of cfg] d read_loop_state_at [of cfg env s0 k sk] a
  show "read_loop cfg env 0 s0 = Finished Exit_abort (zbc_read_zone_sigcatcher sk)"
    by simp
  from a state_at_counts [of cfg env s0 k sk]
  show "iocount sk = iocount s0 + of_nat k" and "length (reads sk) = length (reads s0) + k"
    by simp_all
next
  fix ofst s1
  assume a: "loop_body cfg env 0 (initial_session ofst) = Continue s1 \<and> signal_at env 1"
  then have st: "loop_body cfg env 0 (initial_session ofst) = Continue s1 \<or>
      loop_body cfg env 0 (initial_session ofst) = Stop (Finished Exit_budget s1)" by simp
  from loop_body_completed [OF st] obtain w where
    w: "0 < sint (zbc_read env 0 (dispatch cfg w (sector_ofst (initial_session ofst))))"
       "account ((initial_session ofst)\<lparr>reads := reads (initial_session ofst) @
                   [dispatch cfg w (sector_ofst (initial_session ofst))]\<rparr>)
          (zbc_read env 0 (dispatch cfg w (sector_ofst (initial_session ofst)))) = Some s1"
    by blast
  let ?r = "zbc_read env 0 (dispatch cfg w (sector_ofst (initial_session ofst)))"
  note acc = account_eq [OF w(2)]
  have d: "deliver_signals env 1 s1 = zbc_read_zone_sigcatcher s1"
    using a by (simp add: deliver_signals_def)
  then have "zbc_read_zone_abort (deliver_signals env (Suc 0) s1) \<noteq> 0"
    by (simp add: zbc_read_zone_sigcatcher_def)
  from read_loop_aborted [OF this, of cfg] d a
  have run: "read_loop cfg env 0 (initial_session ofst) =
      Finished Exit_abort (zbc_read_zone_sigcatcher s1)"
    by (simp add: read_loop_Continue)
  have "zbc_read_zone_abort (zbc_read_zone_sigcatcher s1) = 1 \<and>
        ret (zbc_read_zone_sigcatcher s1) = 0 \<and>
        iocount (zbc_read_zone_sigcatcher s1) = 1 \<and>
        length (reads (zbc_read_zone_sigcatcher s1)) = 1 \<and>
        sector_ofst (zbc_read_zone_sigcatcher s1) = ofst + ?r \<and>
        bcount (zbc_read_zone_sigcatcher s1) = 512 * ?r"
    by (simp add: acc zbc_read_zone_sigcatcher_def initial_session_def push_bit_eq_mult)
  with run w(1)
  show "\<exists>sf r. read_loop cfg env 0 (initial_session ofst) = Finished Exit_abort sf \<and>
              zbc_read_zone_abort sf = 1 \<and> ret sf = 0 \<and>
              iocount sf = 1 \<and> length (reads sf) = 1 \<and>
              0 < sint r \<and> sector_ofst sf = ofst + r \<and> bcount sf = 512 * r"
    by blast
qed simp_all

theorem C4_cooperative_abort_witness:
  "read_loop (config_for zone_half_written 4096) device_ok 0
     (zbc_read_zone_sigcatcher (initial_session 0)) =
     Finished Exit_abort (zbc_read_zone_sigcatcher (initial_session 0)) \<and>
   read_loop (config_for zone_half_written 4096) device_interrupted 0 (initial_session 0) =
     Finished Exit_abort
       \<lparr>sector_ofst = 8, bcount = 4096, iocount = 1, ret = 0,
        zbc_read_zone_abort = 1, reads = [Pread 8 1000]\<rparr> \<and>
   (\<exists>sf r. read_loop (config_for zone_half_written 4096) device_interrupted 0 (initial_session 0) =
              Finished Exit_abort sf \<and>
           zbc_read_zone_abort sf = 1 \<and> ret sf = 0 \<and> iocount sf = 1 \<and>
           length (reads sf) = 1 \<and> 0 < sint r \<and> sector_ofst sf = 0 + r \<and> bcount sf = 512 * r)"
proof -
  let ?cfg = "config_for zone_half_written 4096"
  let ?s1 = "\<lparr>sector_ofst = 8, bcount = 4096, iocount = 1, ret = 0,
              zbc_read_zone_abort = 0, reads = [Pread 8 1000]\<rparr>"
  have flag: "zbc_read_zone_abort (zbc_read_zone_sigcatcher (initial_session 0)) \<noteq> 0"
    by (simp add: zbc_read_zone_sigcatcher_def)
  have quiet: "deliver_signals device_ok 0 (zbc_read_zone_sigcatcher (initial_session 0)) =
      zbc_read_zone_sigcatcher (initial_session 0)"
    by (simp add: deliver_signals_def device_ok_def)
  have step: "loop_body ?cfg device_interrupted 0 (initial_session 0) = Continue ?s1"
    by code_simp
  have sig: "signal_at device_interrupted 1"
    by (simp add: device_interrupted_def)
  have reach: "state_at ?cfg device_interrupted (initial_session 0) 1 = Some ?s1"
    using step by simp
  have a: "read_loop ?cfg device_ok 0 (zbc_read_zone_sigcatcher (initial_session 0)) =
      Finished Exit_abort (zbc_read_zone_sigcatcher (initial_session 0))"
    using C4_cooperative_abort [of "zbc_read_zone_sigcatcher (initial_session 0)" device_ok 0 ?cfg]
      flag quiet by simp
  have "read_loop ?cfg device_interrupted 0 (initial_session 0) =
      Finished Exit_abort (zbc_read_zone_sigcatcher ?s1)"
    using C4_cooperative_abort [of "initial_session 0" device_interrupted 1 ?cfg] reach sig
    by blast
  then have b: "read_loop ?cfg device_interrupted 0 (initial_session 0) =
      Finished Exit_abort
        \<lparr>sector_ofst = 8, bcount = 4096, iocount = 1, ret = 0,
         zbc_read_zone_abort = 1, reads = [Pread 8 1000]\<rparr>"
    by (simp add: zbc_read_zone_sigcatcher_def)
  have c: "\<exists>sf r. read_loop ?cfg device_interrupted 0 (initial_session 0) = Finished Exit_abort sf \<and>
           zbc_read_zone_abort sf = 1 \<and> ret sf = 0 \<and> iocount sf = 1 \<and>
           length (reads sf) = 1 \<and> 0 < sint r \<and> sector_ofst sf = 0 + r \<and> bcount sf = 512 * r"
    using C4_cooperative_abort [of "initial_session 0" device_interrupted 0 ?cfg] step sig
    by blast
  from a b c show ?thesis by blast
qed

subsection \<open>C5: a failed read ends the run\<close>

text \<open>
  C5. When the run has reached the top of iteration \<open>k\<close> (the \<open>k\<close> iterations before it
  completed their I/O), the loop test passes, and the read primitive returns zero or
  a negative value, the run ends there in the failed state: the read was called once
  and not again, the offset and the byte and I/O counters are those of the \<open>k\<close>
  completed iterations, \<^verbatim>\<open>ret\<close> is 1, and \<^verbatim>\<open>main\<close> returns the status 1. In particular, a
  device that transfers 8 sectors on the first call and returns -5 on the second leaves
  the counters of one I/O.
\<close>

theorem C5_read_failure_stops:
  assumes reach: "state_at cfg env s0 k = Some s"
    and flag: "zbc_read_zone_abort (deliver_signals env k s) = 0"
    and guard: "sector_ofst s <s sector_max cfg"
    and want: "want_sectors cfg (sector_ofst s) = Some w"
    and fail: "zbc_read env k (dispatch cfg w (sector_ofst s)) \<le>s 0"
  shows "read_loop cfg env 0 s0 =
           Finished Exit_read_failed
             (s\<lparr>reads := reads s @ [dispatch cfg w (sector_ofst s)], ret := 1\<rparr>) \<and>
         iocount s = iocount s0 + of_nat k \<and>
         length (reads s @ [dispatch cfg w (sector_ofst s)]) = length (reads s0) + k + 1 \<and>
         (\<forall>sys ofst fd. s0 = initial_session ofst \<and> open_output (out_file cfg) sys = (fd, True) \<longrightarrow>
            (\<exists>r. main_io cfg sys env ofst = Some r \<and> exit_status r = 1))"
proof -
  let ?sf = "s\<lparr>reads := reads s @ [dispatch cfg w (sector_ofst s)], ret := 1\<rparr>"
  have idle: "deliver_signals env k s = s" using flag by (rule deliver_signals_idle)
  have "loop_body cfg env k s = Stop (Finished Exit_read_failed ?sf)"
    using flag guard want fail idle by (simp add: loop_body_def Let_def)
  then have "read_loop cfg env k s = Finished Exit_read_failed ?sf"
    by (rule read_loop_Stop)
  with read_loop_state_at [OF reach]
  have run: "read_loop cfg env 0 s0 = Finished Exit_read_failed ?sf" by simp
  have rep: "throughput_report e b n \<noteq> None" for e b n
    by (simp add: throughput_report_def u64_div_def)
  have "\<exists>r. main_io cfg sys env ofst = Some r \<and> exit_status r = 1"
    if "s0 = initial_session ofst \<and> open_output (out_file cfg) sys = (fd, True)" for sys ofst fd
  proof -
    obtain rp where "throughput_report (usec_end sys - usec_start sys) (bcount ?sf) (iocount ?sf)
        = Some rp"
      using rep by blast
    with that run show ?thesis by (simp add: main_io_def)
  qed
  with run state_at_counts [OF reach] show ?thesis by simp
qed

theorem C5_read_failure_stops_witness:
  "read_loop (config_for zone_half_written 4096) device_failing 0 (initial_session 0) =
     Finished Exit_read_failed
       \<lparr>sector_ofst = 8, bcount = 4096, iocount = 1, ret = 1,
        zbc_read_zone_abort = 0, reads = [Pread 8 1000, Pread 8 1008]\<rparr> \<and>
   (\<exists>r. main_io (config_for zone_half_written 4096)
           \<lparr>fileno_stdout = 1, open_result = 3, usec_start = 0, usec_end = 250\<rparr>
           device_failing 0 = Some r \<and> exit_status r = 1)"
proof -
  let ?cfg = "config_for zone_half_written 4096"
  let ?s1 = "\<lparr>sector_ofst = 8, bcount = 4096, iocount = 1, ret = 0,
              zbc_read_zone_abort = 0, reads = [Pread 8 1000]\<rparr>"
  have step: "loop_body ?cfg device_failing 0 (initial_session 0) = Continue ?s1"
    by code_simp
  have reach: "state_at ?cfg device_failing (initial_session 0) 1 = Some ?s1"
    using step by simp
  have flag: "zbc_read_zone_abort (deliver_signals device_failing 1 ?s1) = 0"
    by (simp add: deliver_signals_def device_failing_def device_ok_def)
  have guard: "sector_ofst ?s1 <s sector_max ?cfg"
    by code_simp
  have want: "want_sectors ?cfg (sector_ofst ?s1) = Some 8"
    by code_simp
  have fail: "zbc_read device_failing 1 (dispatch ?cfg 8 (sector_ofst ?s1)) \<le>s 0"
    by (simp add: device_failing_def word_sle_eq)
  have out: "open_output (out_file ?cfg) \<lparr>fileno_stdout = 1, open_result = 3, usec_start = 0, usec_end = 250\<rparr>
      = (- 1, True)"
    by (simp add: open_output_def config_for_def)
  have disp: "dispatch ?cfg 8 (sector_ofst ?s1) = Pread 8 1008"
    by code_simp
  note t = C5_read_failure_stops [OF reach flag guard want fail]
  from t disp have "read_loop ?cfg device_failing 0 (initial_session 0) =
     Finished Exit_read_failed
       \<lparr>sector_ofst = 8, bcount = 4096, iocount = 1, ret = 1,
        zbc_read_zone_abort = 0, reads = [Pread 8 1000, Pread 8 1008]\<rparr>"
    by simp
  moreover from t out have "\<exists>r. main_io ?cfg
           \<lparr>fileno_stdout = 1, open_result = 3, usec_start = 0, usec_end = 250\<rparr>
           device_failing 0 = Some r \<and> exit_status r = 1"
    by blast
  ultimately show ?thesis by blast
qed

subsection \<open>C6: the reported rates\<close>

text \<open>
  C6, as the code has it. With a non-zero elapsed time the report is a function of the
  elapsed time, the byte count and the I/O count alone. The I/O rate is the I/O count
  times 1,000,000, reduced modulo \<open>2^64\<close> (the product is formed on unsigned 64 bits),
  divided by the elapsed time and truncated; the byte rate is formed the same way from
  the byte count, and is printed as the rate divided by 1,000,000 and the remainder
  divided by 1,000. Where the product is below \<open>2^64\<close> the rate is the exact truncated
  quotient.
\<close>

theorem C6_rates:
  assumes "elapsed \<noteq> 0"
  shows "\<exists>iops brate.
           throughput_report elapsed b n =
             Some (Report_rates b n (elapsed div 1000000) ((elapsed mod 1000000) div 1000)
                     iops (brate div 1000000) ((brate mod 1000000) div 1000)) \<and>
           uint iops = uint n * 1000000 mod 2 ^ 64 div uint elapsed \<and>
           uint brate = uint b * 1000000 mod 2 ^ 64 div uint elapsed \<and>
           (uint n * 1000000 < 2 ^ 64 \<longrightarrow> uint iops = uint n * 1000000 div uint elapsed) \<and>
           (uint b * 1000000 < 2 ^ 64 \<longrightarrow> uint brate = uint b * 1000000 div uint elapsed) \<and>
           uint (brate div 1000000) = uint brate div 1000000 \<and>
           uint ((brate mod 1000000) div 1000) = uint brate mod 1000000 div 1000"
proof -
  let ?iops = "n * 1000000 div elapsed" and ?brate = "b * 1000000 div elapsed"
  have r: "throughput_report elapsed b n =
      Some (Report_rates b n (elapsed div 1000000) ((elapsed mod 1000000) div 1000)
              ?iops (?brate div 1000000) ((?brate mod 1000000) div 1000))"
    using assms by (simp add: throughput_report_def u64_div_def)
  have i: "uint ?iops = uint n * 1000000 mod 2 ^ 64 div uint elapsed"
    by (simp add: uint_div uint_mult_million)
  have b: "uint ?brate = uint b * 1000000 mod 2 ^ 64 div uint elapsed"
    by (simp add: uint_div uint_mult_million)
  have small: "x mod 2 ^ 64 = x" if "x < 2 ^ 64" "0 \<le> x" for x :: int
    using that by (simp add: mod_pos_pos_trivial)
  have i': "uint n * 1000000 < 2 ^ 64 \<longrightarrow> uint ?iops = uint n * 1000000 div uint elapsed"
    using i small [of "uint n * 1000000"] by simp
  have b': "uint b * 1000000 < 2 ^ 64 \<longrightarrow> uint ?brate = uint b * 1000000 div uint elapsed"
    using b small [of "uint b * 1000000"] by simp
  have p: "uint (?brate div 1000000) = uint ?brate div 1000000"
    "uint ((?brate mod 1000000) div 1000) = uint ?brate mod 1000000 div 1000"
    by (simp_all add: uint_div uint_mod)
  from r i b i' b' p show ?thesis by blast
qed

theorem C6_rates_witness:
  "\<exists>iops brate.
     throughput_report 2000000 256000 63 =
       Some (Report_rates 256000 63 (2000000 div 1000000) ((2000000 mod 1000000) div 1000)
               iops (brate div 1000000) ((brate mod 1000000) div 1000)) \<and>
     uint iops = 31 \<and> uint brate = 128000"
proof -
  have nz: "(2000000 :: u64) \<noteq> 0" by simp
  from C6_rates [OF nz, of 256000 63] obtain iops brate where
    "throughput_report 2000000 256000 63 =
       Some (Report_rates 256000 63 (2000000 div 1000000) ((2000000 mod 1000000) div 1000)
               iops (brate div 1000000) ((brate mod 1000000) div 1000))"
    "uint (63 :: u64) * 1000000 < 2 ^ 64 \<longrightarrow>
       uint iops = uint (63 :: u64) * 1000000 div uint (2000000 :: u64)"
    "uint (256000 :: u64) * 1000000 < 2 ^ 64 \<longrightarrow>
       uint brate = uint (256000 :: u64) * 1000000 div uint (2000000 :: u64)"
    by blast
  then have "throughput_report 2000000 256000 63 =
       Some (Report_rates 256000 63 (2000000 div 1000000) ((2000000 mod 1000000) div 1000)
               iops (brate div 1000000) ((brate mod 1000000) div 1000)) \<and>
     uint iops = 31 \<and> uint brate = 128000"
    by simp
  then show ?thesis by blast
qed

text \<open>
  The claim as stated fails where the product wraps: for 20,000,000,000,000 bytes read
  in 19,531,250 I/Os over 100,000 seconds the exact byte rate is 200,000,000 bytes per
  second, to be printed as 200.000 MB/s, and the program prints 15.532 MB/s.
\<close>

theorem C6_rates_counterexample:
  "throughput_report 100000000000 20000000000000 19531250 =
     Some (Report_rates 20000000000000 19531250 100000 0 195 15 532) \<and>
   (20000000000000 * 1000000 div 100000000000) div 1000000 = (200 :: int) \<and>
   (20000000000000 * 1000000 div 100000000000) mod 1000000 div 1000 = (0 :: int)"
  by (simp add: throughput_report_def u64_div_def)

subsection \<open>C7: no rate for a zero elapsed time\<close>

text \<open>
  C7. With an elapsed time of zero the report consists of the byte and I/O totals
  alone, and the report never divides by zero, whatever the elapsed time and the
  counters are. Hence a run whose clock reads the same before and after the loop ends
  by printing the totals of its final counters.
\<close>

theorem C7_zero_elapsed:
  "throughput_report 0 b n = Some (Report_totals b n) \<and>
   throughput_report e b n \<noteq> None \<and>
   (\<forall>cfg sys env ofst fd x sf.
      usec_end sys = usec_start sys \<and> open_output (out_file cfg) sys = (fd, True) \<and>
      read_loop cfg env 0 (initial_session ofst) = Finished x sf \<longrightarrow>
      (\<exists>r. main_io cfg sys env ofst = Some r \<and>
           printed r = Some (Report_totals (bcount sf) (iocount sf))))"
  by (simp add: throughput_report_defined) (simp add: throughput_report_def main_io_def)

theorem C7_zero_elapsed_witness:
  "throughput_report 0 0 0 = Some (Report_totals 0 0) \<and>
   (\<exists>r. main_io (config_for zone_empty 4096)
           \<lparr>fileno_stdout = 1, open_result = 3, usec_start = 77, usec_end = 77\<rparr>
           device_ok 0 = Some r \<and>
        printed r = Some (Report_totals 0 0))"
proof -
  let ?sys = "\<lparr>fileno_stdout = 1, open_result = 3, usec_start = 77, usec_end = 77\<rparr>"
  have clock: "usec_end ?sys = usec_start ?sys" by simp
  have out: "open_output (out_file (config_for zone_empty 4096)) ?sys = (- 1, True)"
    by (simp add: open_output_def config_for_def)
  have run: "read_loop (config_for zone_empty 4096) device_ok 0 (initial_session 0) =
      Finished Exit_extent (initial_session 0)"
    by code_simp
  note t = C7_zero_elapsed [of 0 0 0]
  from t clock out run have "\<exists>r. main_io (config_for zone_empty 4096) ?sys device_ok 0 = Some r \<and>
        printed r = Some (Report_totals (bcount (initial_session 0)) (iocount (initial_session 0)))"
    by blast
  then have "\<exists>r. main_io (config_for zone_empty 4096) ?sys device_ok 0 = Some r \<and>
        printed r = Some (Report_totals 0 0)"
    by (simp add: initial_session_def)
  with t show ?thesis by blast
qed

subsection \<open>C8: removal of the output file\<close>

text \<open>
  C8 does not hold of the program. Lines 382 to 387 skip \<^verbatim>\<open>close\<close> for the standard
  output but still call \<^verbatim>\<open>unlink\<close> on the file name when \<^verbatim>\<open>ret\<close> is not zero, and for the
  standard output that name is \<^verbatim>\<open>"-"\<close>: a run started with \<^verbatim>\<open>-f -\<close> whose first read
  fails returns status 1 and unlinks the path \<^verbatim>\<open>-\<close> of the working directory.
\<close>

theorem C8_stdout_failure_unlinks:
  "main_io ((config_for zone_half_written 4096)\<lparr>out_file := Some ''-''\<rparr>)
     system_usual device_dead 0 =
     Some \<lparr>exit_status = 1, fs_actions = [Unlink ''-''],
           printed = Some (Report_rates 0 0 0 0 0 0 0)\<rparr>"
  by code_simp

subsection \<open>C9: sectors of 512 bytes\<close>

text \<open>
  C9. The sector count an iteration asks for before clamping is \<^verbatim>\<open>iosize >> 9\<close>, that is
  \<^verbatim>\<open>iosize\<close> divided by 512: the request is the minimum of it and what is left of the
  extent, and at a non-negative offset with that many sectors left the request is this
  count. The accounting of a completed I/O of \<open>r\<close> sectors (\<open>r\<close> positive and below
  \<open>2^54\<close>, the new offset within the signed 64-bit range) adds \<open>r\<close> to the offset, 1 to
  the I/O count and \<open>512 * r\<close> to the byte counter, an unsigned 64-bit counter. So an
  iteration that passes the loop test, whose read returns a positive \<open>r\<close> not above the
  request and whose output, if any, does not fail, ends with the byte counter advanced
  by 512 times the value the read returned; and every iteration that completes an I/O
  has advanced it so. None of this depends on the logical block size the device
  reports: the request size is the same for every block size, and without vectored
  mode, where the block size does not enter the choice of the call either, so is the
  whole run.
\<close>

theorem C9_sector_scaling:
  "uint (drop_bit 9 (iosize cfg)) = uint (iosize cfg) div 512 \<and>
   (\<forall>ofst w. want_sectors cfg ofst = Some w \<and> ofst <s sector_max cfg \<longrightarrow>
      sint w = min (uint (iosize cfg) div 512) (sint (sector_max cfg) - sint ofst)) \<and>
   (\<forall>ofst w. want_sectors cfg ofst = Some w \<and> ofst <s sector_max cfg \<and>
            sint ofst + uint (iosize cfg) div 512 \<le> sint (sector_max cfg) \<longrightarrow>
      w = drop_bit 9 (iosize cfg) \<and> sint w = uint (iosize cfg) div 512) \<and>
   (\<forall>ofst. ofst <s sector_max cfg \<and> 0 \<le> sint ofst \<and>
          sint ofst + uint (iosize cfg) div 512 \<le> sint (sector_max cfg) \<longrightarrow>
      want_sectors cfg ofst = Some (drop_bit 9 (iosize cfg))) \<and>
   (\<forall>r. 0 < sint r \<and> sint r < 2 ^ 54 \<and> in_s64 (sint (sector_ofst s) + sint r) \<longrightarrow>
      account s r =
        Some (s\<lparr>sector_ofst := sector_ofst s + r, bcount := bcount s + 512 * r,
                iocount := iocount s + 1, ret := 0\<rparr>) \<and>
      uint (bcount s + 512 * r) = (uint (bcount s) + 512 * sint r) mod 2 ^ 64) \<and>
   (\<forall>w. zbc_read_zone_abort (deliver_signals env k s) = 0 \<and>
        sector_ofst s <s sector_max cfg \<and> 0 \<le> sint (sector_ofst s) \<and>
        uint (iosize cfg) < 2 ^ 63 \<and>
        want_sectors cfg (sector_ofst s) = Some w \<and>
        0 < sint (zbc_read env k (dispatch cfg w (sector_ofst s))) \<and>
        sint (zbc_read env k (dispatch cfg w (sector_ofst s))) \<le> sint w \<and>
        write_out cfg env k (zbc_read env k (dispatch cfg w (sector_ofst s))) \<noteq> Sink_failed \<longrightarrow>
      (\<exists>s2. (loop_body cfg env k s = Continue s2 \<or>
             loop_body cfg env k s = Stop (Finished Exit_budget s2)) \<and>
            sector_ofst s2 = sector_ofst s + zbc_read env k (dispatch cfg w (sector_ofst s)) \<and>
            bcount s2 = bcount s + 512 * zbc_read env k (dispatch cfg w (sector_ofst s)) \<and>
            iocount s2 = iocount s + 1)) \<and>
   (\<forall>s2. loop_body cfg env k s = Continue s2 \<or>
         loop_body cfg env k s = Stop (Finished Exit_budget s2) \<longrightarrow>
      (\<exists>w r. want_sectors cfg (sector_ofst s) = Some w \<and>
             r = zbc_read env k (dispatch cfg w (sector_ofst s)) \<and>
             0 < sint r \<and> sector_ofst s2 = sector_ofst s + r \<and>
             bcount s2 = bcount s + 512 * r \<and>
             uint (bcount s2) = (uint (bcount s) + 512 * sint r) mod 2 ^ 64)) \<and>
   (\<forall>lb ofst. want_sectors (cfg\<lparr>zbd_lblock_size := lb\<rparr>) ofst = want_sectors cfg ofst) \<and>
   (\<forall>lb. \<not> fvio cfg \<longrightarrow> read_loop (cfg\<lparr>zbd_lblock_size := lb\<rparr>) env k s = read_loop cfg env k s)"
proof (intro conjI allI impI)
  show "uint (drop_bit 9 (iosize cfg)) = uint (iosize cfg) div 512"
    by (rule uint_drop_bit_9)
next
  fix ofst w
  assume "want_sectors cfg ofst = Some w \<and> ofst <s sector_max cfg"
  then show "sint w = min (uint (iosize cfg) div 512) (sint (sector_max cfg) - sint ofst)"
    using want_sectors_min [of cfg ofst w] by simp
next
  fix ofst w
  assume a: "want_sectors cfg ofst = Some w \<and> ofst <s sector_max cfg \<and>
             sint ofst + uint (iosize cfg) div 512 \<le> sint (sector_max cfg)"
  then have m: "sint w = uint (iosize cfg) div 512"
    using want_sectors_min [of cfg ofst w] by simp
  then show "sint w = uint (iosize cfg) div 512" .
  from m have "sint w = sint (drop_bit 9 (iosize cfg))" by (simp add: sint_drop_bit_9)
  then show "w = drop_bit 9 (iosize cfg)" by (rule signed_word_eqI)
next
  fix ofst
  assume "ofst <s sector_max cfg \<and> 0 \<le> sint ofst \<and>
          sint ofst + uint (iosize cfg) div 512 \<le> sint (sector_max cfg)"
  then show "want_sectors cfg ofst = Some (drop_bit 9 (iosize cfg))"
    by (simp add: want_sectors_unclamped)
next
  fix r :: s64
  assume a: "0 < sint r \<and> sint r < 2 ^ 54 \<and> in_s64 (sint (sector_ofst s) + sint r)"
  then show "account s r =
        Some (s\<lparr>sector_ofst := sector_ofst s + r, bcount := bcount s + 512 * r,
                iocount := iocount s + 1, ret := 0\<rparr>)"
    by (simp add: account_defined)
  from a show "uint (bcount s + 512 * r) = (uint (bcount s) + 512 * sint r) mod 2 ^ 64"
    by (simp add: uint_bcount_advance)
next
  fix w
  assume "zbc_read_zone_abort (deliver_signals env k s) = 0 \<and>
        sector_ofst s <s sector_max cfg \<and> 0 \<le> sint (sector_ofst s) \<and>
        uint (iosize cfg) < 2 ^ 63 \<and>
        want_sectors cfg (sector_ofst s) = Some w \<and>
        0 < sint (zbc_read env k (dispatch cfg w (sector_ofst s))) \<and>
        sint (zbc_read env k (dispatch cfg w (sector_ofst s))) \<le> sint w \<and>
        write_out cfg env k (zbc_read env k (dispatch cfg w (sector_ofst s))) \<noteq> Sink_failed"
  then show "\<exists>s2. (loop_body cfg env k s = Continue s2 \<or>
             loop_body cfg env k s = Stop (Finished Exit_budget s2)) \<and>
            sector_ofst s2 = sector_ofst s + zbc_read env k (dispatch cfg w (sector_ofst s)) \<and>
            bcount s2 = bcount s + 512 * zbc_read env k (dispatch cfg w (sector_ofst s)) \<and>
            iocount s2 = iocount s + 1"
    using loop_body_counts [of env k s cfg w] by simp
next
  fix s2
  assume "loop_body cfg env k s = Continue s2 \<or>
          loop_body cfg env k s = Stop (Finished Exit_budget s2)"
  from loop_body_completed [OF this] obtain w where
    w: "want_sectors cfg (sector_ofst s) = Some w"
       "0 < sint (zbc_read env k (dispatch cfg w (sector_ofst s)))"
       "account (s\<lparr>reads := reads s @ [dispatch cfg w (sector_ofst s)]\<rparr>)
          (zbc_read env k (dispatch cfg w (sector_ofst s))) = Some s2"
    by blast
  let ?r = "zbc_read env k (dispatch cfg w (sector_ofst s))"
  note e = account_eq [OF w(3)]
  have "sector_ofst s2 = sector_ofst s + ?r" "bcount s2 = bcount s + 512 * ?r"
    by (simp_all add: e push_bit_eq_mult)
  with w(1) w(2) uint_bcount_advance [OF w(2), of "bcount s"]
  show "\<exists>w r. want_sectors cfg (sector_ofst s) = Some w \<and>
             r = zbc_read env k (dispatch cfg w (sector_ofst s)) \<and>
             0 < sint r \<and> sector_ofst s2 = sector_ofst s + r \<and>
             bcount s2 = bcount s + 512 * r \<and>
             uint (bcount s2) = (uint (bcount s) + 512 * sint r) mod 2 ^ 64"
    by auto
next
  fix lb ofst
  show "want_sectors (cfg\<lparr>zbd_lblock_size := lb\<rparr>) ofst = want_sectors cfg ofst"
    by (simp add: want_sectors_def Let_def split: option.splits)
next
  fix lb
  assume "\<not> fvio cfg"
  then show "read_loop (cfg\<lparr>zbd_lblock_size := lb\<rparr>) env k s = read_loop cfg env k s"
    by (rule read_loop_lblock_irrelevant)
qed

theorem C9_sector_scaling_witness:
  "want_sectors config_block_4k 0 = Some (drop_bit 9 (iosize config_block_4k)) \<and>
   want_sectors config_block_4k 0 = Some 8 \<and>
   account (initial_session 0) 8 =
     Some \<lparr>sector_ofst = 8, bcount = 4096, iocount = 1, ret = 0,
           zbc_read_zone_abort = 0, reads = []\<rparr> \<and>
   (\<exists>s2. (loop_body config_block_4k device_ok 0 (initial_session 0) = Continue s2 \<or>
          loop_body config_block_4k device_ok 0 (initial_session 0) =
            Stop (Finished Exit_budget s2)) \<and>
         sector_ofst s2 = 8 \<and> bcount s2 = 4096 \<and> iocount s2 = 1) \<and>
   (\<exists>s2. (loop_body config_budget device_short 0 (initial_session 0) = Continue s2 \<or>
          loop_body config_budget device_short 0 (initial_session 0) =
            Stop (Finished Exit_budget s2)) \<and>
         sector_ofst s2 = 3 \<and> bcount s2 = 1536 \<and> iocount s2 = 1) \<and>
   read_loop config_block_4k device_ok 0 (initial_session 0) =
     read_loop (config_for zone_half_written 4096) device_ok 0 (initial_session 0)"
proof -
  let ?cfg = "config_block_4k"
  let ?s0 = "initial_session 0"
  note t = C9_sector_scaling [of ?cfg ?s0 device_ok 0]
  have size: "drop_bit 9 (iosize ?cfg) = 8" by code_simp
  have g: "(0 :: s64) <s sector_max ?cfg \<and> 0 \<le> sint (0 :: s64) \<and>
      sint (0 :: s64) + uint (iosize ?cfg) div 512 \<le> sint (sector_max ?cfg)"
    by code_simp
  from t g have a: "want_sectors ?cfg 0 = Some (drop_bit 9 (iosize ?cfg))" by blast
  with size have a': "want_sectors ?cfg 0 = Some 8" by simp
  have r8: "0 < sint (8 :: s64) \<and> sint (8 :: s64) < 2 ^ 54 \<and>
      in_s64 (sint (sector_ofst ?s0) + sint (8 :: s64))"
    by (simp add: in_s64_def initial_session_def)
  from t r8 have "account ?s0 8 =
      Some (?s0\<lparr>sector_ofst := sector_ofst ?s0 + 8, bcount := bcount ?s0 + 512 * 8,
                iocount := iocount ?s0 + 1, ret := 0\<rparr>)"
    by blast
  then have b: "account ?s0 8 =
     Some \<lparr>sector_ofst = 8, bcount = 4096, iocount = 1, ret = 0,
           zbc_read_zone_abort = 0, reads = []\<rparr>"
    by (simp add: initial_session_def)
  have rd: "zbc_read device_ok 0 (dispatch ?cfg 8 (sector_ofst ?s0)) = 8" by code_simp
  have h: "zbc_read_zone_abort (deliver_signals device_ok 0 ?s0) = 0 \<and>
        sector_ofst ?s0 <s sector_max ?cfg \<and> 0 \<le> sint (sector_ofst ?s0) \<and>
        uint (iosize ?cfg) < 2 ^ 63 \<and>
        want_sectors ?cfg (sector_ofst ?s0) = Some 8 \<and>
        0 < sint (zbc_read device_ok 0 (dispatch ?cfg 8 (sector_ofst ?s0))) \<and>
        sint (zbc_read device_ok 0 (dispatch ?cfg 8 (sector_ofst ?s0))) \<le> sint (8 :: s64) \<and>
        write_out ?cfg device_ok 0 (zbc_read device_ok 0 (dispatch ?cfg 8 (sector_ofst ?s0)))
          \<noteq> Sink_failed"
    by code_simp
  from t h have "\<exists>s2. (loop_body ?cfg device_ok 0 ?s0 = Continue s2 \<or>
             loop_body ?cfg device_ok 0 ?s0 = Stop (Finished Exit_budget s2)) \<and>
            sector_ofst s2 = sector_ofst ?s0 + zbc_read device_ok 0 (dispatch ?cfg 8 (sector_ofst ?s0)) \<and>
            bcount s2 = bcount ?s0 + 512 * zbc_read device_ok 0 (dispatch ?cfg 8 (sector_ofst ?s0)) \<and>
            iocount s2 = iocount ?s0 + 1"
    by blast
  then have c: "\<exists>s2. (loop_body ?cfg device_ok 0 ?s0 = Continue s2 \<or>
          loop_body ?cfg device_ok 0 ?s0 = Stop (Finished Exit_budget s2)) \<and>
         sector_ofst s2 = 8 \<and> bcount s2 = 4096 \<and> iocount s2 = 1"
    by (simp add: rd) (simp add: initial_session_def)
  note u = C9_sector_scaling [of config_budget ?s0 device_short 0]
  have rd3: "zbc_read device_short 0 (dispatch config_budget 8 (sector_ofst ?s0)) = 3"
    by code_simp
  have h3: "zbc_read_zone_abort (deliver_signals device_short 0 ?s0) = 0 \<and>
        sector_ofst ?s0 <s sector_max config_budget \<and> 0 \<le> sint (sector_ofst ?s0) \<and>
        uint (iosize config_budget) < 2 ^ 63 \<and>
        want_sectors config_budget (sector_ofst ?s0) = Some 8 \<and>
        0 < sint (zbc_read device_short 0 (dispatch config_budget 8 (sector_ofst ?s0))) \<and>
        sint (zbc_read device_short 0 (dispatch config_budget 8 (sector_ofst ?s0)))
          \<le> sint (8 :: s64) \<and>
        write_out config_budget device_short 0
          (zbc_read device_short 0 (dispatch config_budget 8 (sector_ofst ?s0))) \<noteq> Sink_failed"
    by code_simp
  from u h3 have "\<exists>s2. (loop_body config_budget device_short 0 ?s0 = Continue s2 \<or>
             loop_body config_budget device_short 0 ?s0 = Stop (Finished Exit_budget s2)) \<and>
            sector_ofst s2 = sector_ofst ?s0 +
              zbc_read device_short 0 (dispatch config_budget 8 (sector_ofst ?s0)) \<and>
            bcount s2 = bcount ?s0 +
              512 * zbc_read device_short 0 (dispatch config_budget 8 (sector_ofst ?s0)) \<and>
            iocount s2 = iocount ?s0 + 1"
    by blast
  then have d: "\<exists>s2. (loop_body config_budget device_short 0 ?s0 = Continue s2 \<or>
          loop_body config_budget device_short 0 ?s0 = Stop (Finished Exit_budget s2)) \<and>
         sector_ofst s2 = 3 \<and> bcount s2 = 1536 \<and> iocount s2 = 1"
    by (simp add: rd3) (simp add: initial_session_def)
  have nv: "\<not> fvio (config_for zone_half_written 4096)" by (simp add: config_for_def)
  from C9_sector_scaling [of "config_for zone_half_written 4096" ?s0 device_ok 0] nv
  have "read_loop ((config_for zone_half_written 4096)\<lparr>zbd_lblock_size := 4096\<rparr>) device_ok 0 ?s0 =
      read_loop (config_for zone_half_written 4096) device_ok 0 ?s0"
    by blast
  then have e: "read_loop ?cfg device_ok 0 ?s0 =
      read_loop (config_for zone_half_written 4096) device_ok 0 ?s0"
    by (simp add: config_block_4k_def)
  from a a' b c d e show ?thesis by blast
qed

subsection \<open>C10: a negative argument of -nio\<close>

text \<open>
  C10. When \<^verbatim>\<open>atoi\<close> returns a negative \<open>n\<close> for the argument of \<^verbatim>\<open>-nio\<close>, the option is
  accepted: \<^verbatim>\<open>ionum\<close> becomes \<open>2^64 + n\<close>, the test \<^verbatim>\<open>ionum <= 0\<close> does not fire (it fires
  for the value 0 and no other), and the run that follows, from any non-negative start
  offset, is the run without a budget.
\<close>

theorem C10_negative_nio:
  assumes "sint n < 0"
  shows "parse_nio n = Inr (scast n) \<and>
         uint (scast n :: u64) = 2 ^ 64 + sint n \<and>
         (\<forall>m. (\<exists>msg. parse_nio m = Inl msg) \<longleftrightarrow> m = 0) \<and>
         (\<forall>cfg env ofst. 0 \<le> sint ofst \<longrightarrow>
            read_loop (cfg\<lparr>ionum := scast n\<rparr>) env 0 (initial_session ofst) =
            read_loop (cfg\<lparr>ionum := 0\<rparr>) env 0 (initial_session ofst))"
proof -
  note p = parse_nio_negative [OF assms]
  have "- (2 ^ 31) \<le> sint n" using sint_ge [of n] by simp
  with p have big: "2 ^ 63 \<le> uint (scast n :: u64)" by simp
  have "read_loop (cfg\<lparr>ionum := scast n\<rparr>) env 0 (initial_session ofst) =
        read_loop (cfg\<lparr>ionum := 0\<rparr>) env 0 (initial_session ofst)"
    if "0 \<le> sint ofst" for cfg :: config and env ofst
    using read_loop_ionum_irrelevant [of "cfg\<lparr>ionum := scast n\<rparr>" "initial_session ofst" env 0]
      big that
    by (simp add: initial_session_def)
  with p parse_nio_rejects_zero_only show ?thesis by blast
qed

theorem C10_negative_nio_witness:
  "parse_nio (- 3) = Inr 18446744073709551613 \<and>
   parse_nio 0 = Inl ''Invalid number of I/Os'' \<and>
   read_loop (config_budget\<lparr>ionum := 18446744073709551613\<rparr>) device_ok 0 (initial_session 0) =
   read_loop (config_budget\<lparr>ionum := 0\<rparr>) device_ok 0 (initial_session 0)"
proof -
  have neg: "sint (- 3 :: c_int) < 0" by simp
  have val: "(scast (- 3 :: c_int) :: u64) = 18446744073709551613" by simp
  have nn: "0 \<le> sint (0 :: s64)" by simp
  note t = C10_negative_nio [OF neg]
  from t val have a: "parse_nio (- 3) = Inr 18446744073709551613" by simp
  from t have "\<exists>msg. parse_nio 0 = Inl msg" by blast
  then have b: "parse_nio 0 = Inl ''Invalid number of I/Os''"
    by (simp add: parse_nio_def)
  have c: "read_loop (config_budget\<lparr>ionum := 18446744073709551613\<rparr>) device_ok 0 (initial_session 0) =
      read_loop (config_budget\<lparr>ionum := 0\<rparr>) device_ok 0 (initial_session 0)"
    using t nn unfolding val [symmetric] by blast
  from a b c show ?thesis by blast
qed

end
